theory Spec2Isabelle
  imports Main "HOL-Library.Word"
begin

unbundle bit_operations_syntax

section \<open>Go-style channels (channel/channel.h)\<close>

text \<open>
  Every operation of a channel runs under the channel's mutex, so the code between two
  waits on a condition variable is one atomic step. A \<^verbatim>\<open>std::condition_variable\<close> is
  modelled by the list of the threads that wait on it. \<^verbatim>\<open>cv.wait(lk, pred)\<close> is
  \<^verbatim>\<open>while (!pred()) wait(lk)\<close>: a thread whose predicate fails joins the list and its
  call has not returned (\<open>Blocks\<close>); once notified it evaluates the predicate again, which
  is the same step run again. \<^verbatim>\<open>notify_all\<close> empties the list. \<^verbatim>\<open>notify_one\<close>
  takes one waiting thread off it; the standard leaves open which one, the model takes the
  one that has waited longest.
\<close>

type_synonym tid = nat

datatype ('r, 's) outcome = Returns 'r 's | Throws string 's | Blocks 's

type_synonym condition_variable = "tid list"

definition wait :: "tid \<Rightarrow> condition_variable \<Rightarrow> condition_variable" where
  "wait t cv = (if t \<in> set cv then cv else cv @ [t])"

definition notify_one :: "condition_variable \<Rightarrow> condition_variable" where
  "notify_one cv = tl cv"

definition notify_all :: "condition_variable \<Rightarrow> condition_variable" where
  "notify_all cv = []"

text \<open>
  \<^verbatim>\<open>unbufferedChannel\<close>: only its state and constructor are needed, to say what
  \<^verbatim>\<open>makeChannel\<close> returns. \<open>tempVal\<close> is default-constructed, hence a parameter.
\<close>

record 'a unbufferedChannel =
  u_open :: bool
  senderReady :: bool
  receiverReady :: bool
  tempVal :: 'a
  u_sender :: condition_variable
  u_receiver :: condition_variable

definition unbufferedChannel_new :: "'a \<Rightarrow> 'a unbufferedChannel" where
  "unbufferedChannel_new dflt =
     \<lparr>u_open = True, senderReady = False, receiverReady = False, tempVal = dflt,
      u_sender = [], u_receiver = []\<rparr>"

text \<open>
  \<^verbatim>\<open>bufferedChannel\<close>: \<open>buffer\<close> is the \<^verbatim>\<open>std::queue\<close>, front first;
  \<open>sender\<close> and \<open>receiver\<close> are the two condition variables.
\<close>

record 'a bufferedChannel =
  "open" :: bool
  buffer :: "'a list"
  maxSize :: int
  sender :: condition_variable
  receiver :: condition_variable

definition bufferedChannel_new :: "'a bufferedChannel" where
  "bufferedChannel_new = \<lparr>open = True, buffer = [], maxSize = 1, sender = [], receiver = []\<rparr>"

definition bufferedChannel_size :: "int \<Rightarrow> 'a bufferedChannel" where
  "bufferedChannel_size sz =
     \<lparr>open = True, buffer = [], maxSize = sz, sender = [], receiver = []\<rparr>"

datatype 'a channel = Unbuffered "'a unbufferedChannel" | Buffered "'a bufferedChannel"

definition makeChannel :: "'a \<Rightarrow> int \<Rightarrow> 'a channel" where
  "makeChannel dflt sz =
     (if sz = 0 then Unbuffered (unbufferedChannel_new dflt)
      else Buffered (bufferedChannel_size sz))"

definition close :: "'a bufferedChannel \<Rightarrow> 'a bufferedChannel" where
  "close ch = ch\<lparr>open := False, receiver := notify_all (receiver ch)\<rparr>"

definition isClosed :: "'a bufferedChannel \<Rightarrow> bool" where
  "isClosed ch = (\<not> open ch \<and> length (buffer ch) = 0)"

text \<open>
  The wait predicate of \<^verbatim>\<open>send\<close>, \<^verbatim>\<open>buffer->size() < maxSize\<close>, compares a
  \<^verbatim>\<open>size_t\<close> with an \<^verbatim>\<open>int\<close>: the \<^verbatim>\<open>int\<close> is converted to the unsigned 64-bit type.
\<close>

definition has_room :: "'a bufferedChannel \<Rightarrow> bool" where
  "has_room ch = (int (length (buffer ch)) < maxSize ch mod 2 ^ 64)"

text \<open>
  \<open>send_wait\<close> is \<^verbatim>\<open>send\<close> from its wait onwards: the step a sender takes when it
  first reaches the wait and again each time it is woken. The test of \<open>open\<close> comes
  before the wait and is not repeated.
\<close>

definition send_wait :: "tid \<Rightarrow> 'a \<Rightarrow> 'a bufferedChannel \<Rightarrow> (unit, 'a bufferedChannel) outcome" where
  "send_wait t v ch =
     (if has_room ch
      then Returns () (ch\<lparr>buffer := buffer ch @ [v], receiver := notify_one (receiver ch)\<rparr>)
      else Blocks (ch\<lparr>sender := wait t (sender ch)\<rparr>))"

definition send :: "tid \<Rightarrow> 'a \<Rightarrow> 'a bufferedChannel \<Rightarrow> (unit, 'a bufferedChannel) outcome" where
  "send t v ch =
     (if \<not> open ch then Throws ''Receive on Closed Channel.'' ch
      else send_wait t v ch)"

text \<open>\<open>receive_wait\<close> is \<^verbatim>\<open>receive\<close> from its wait onwards.\<close>

definition receive_wait :: "tid \<Rightarrow> 'a bufferedChannel \<Rightarrow> ('a, 'a bufferedChannel) outcome" where
  "receive_wait t ch =
     (if length (buffer ch) > 0 \<or> \<not> open ch
      then (if \<not> open ch \<and> length (buffer ch) = 0
            then Throws ''Receive on Closed Channel.'' ch
            else Returns (hd (buffer ch))
                   (ch\<lparr>buffer := tl (buffer ch), sender := notify_one (sender ch)\<rparr>))
      else Blocks (ch\<lparr>receiver := wait t (receiver ch)\<rparr>))"

definition receive :: "tid \<Rightarrow> 'a bufferedChannel \<Rightarrow> ('a, 'a bufferedChannel) outcome" where
  "receive t ch =
     (if \<not> open ch \<and> length (buffer ch) = 0
      then Throws ''Receive on Closed Channel.'' ch
      else receive_wait t ch)"

subsection \<open>Runs of channel operations\<close>

text \<open>
  A run applies operations of any threads one after the other and records, beside the
  channel, the values whose \<^verbatim>\<open>send\<close> has returned and the values that
  \<^verbatim>\<open>receive\<close> has returned, each in the order of the returns.
\<close>

datatype 'a chan_op =
    Send tid 'a
  | Send_woken tid 'a
  | Receive tid
  | Receive_woken tid
  | Close

record 'a chan_run =
  chan :: "'a bufferedChannel"
  sent :: "'a list"
  received :: "'a list"

definition after_send :: "'a \<Rightarrow> 'a chan_run \<Rightarrow> (unit, 'a bufferedChannel) outcome \<Rightarrow> 'a chan_run" where
  "after_send v r out =
     (case out of
        Returns u c \<Rightarrow> r\<lparr>chan := c, sent := sent r @ [v]\<rparr>
      | Throws e c \<Rightarrow> r\<lparr>chan := c\<rparr>
      | Blocks c \<Rightarrow> r\<lparr>chan := c\<rparr>)"

definition after_receive :: "'a chan_run \<Rightarrow> ('a, 'a bufferedChannel) outcome \<Rightarrow> 'a chan_run" where
  "after_receive r out =
     (case out of
        Returns v c \<Rightarrow> r\<lparr>chan := c, received := received r @ [v]\<rparr>
      | Throws e c \<Rightarrow> r\<lparr>chan := c\<rparr>
      | Blocks c \<Rightarrow> r\<lparr>chan := c\<rparr>)"

fun chan_step :: "'a chan_run \<Rightarrow> 'a chan_op \<Rightarrow> 'a chan_run" where
  "chan_step r (Send t v) = after_send v r (send t v (chan r))"
| "chan_step r (Send_woken t v) = after_send v r (send_wait t v (chan r))"
| "chan_step r (Receive t) = after_receive r (receive t (chan r))"
| "chan_step r (Receive_woken t) = after_receive r (receive_wait t (chan r))"
| "chan_step r Close = r\<lparr>chan := close (chan r)\<rparr>"

definition chan_run :: "'a bufferedChannel \<Rightarrow> 'a chan_op list \<Rightarrow> 'a chan_run" where
  "chan_run ch ops = foldl chan_step \<lparr>chan = ch, sent = [], received = []\<rparr> ops"


fun is_blocked :: "('r, 's) outcome \<Rightarrow> bool" where
  "is_blocked (Blocks s) = True"
| "is_blocked _ = False"

fun is_thrown :: "('r, 's) outcome \<Rightarrow> bool" where
  "is_thrown (Throws e s) = True"
| "is_thrown _ = False"

fun state_of :: "('r, 's) outcome \<Rightarrow> 's" where
  "state_of (Returns v s) = s"
| "state_of (Throws e s) = s"
| "state_of (Blocks s) = s"

fun returned :: "('r, 's) outcome \<Rightarrow> 'r option" where
  "returned (Returns v s) = Some v"
| "returned _ = None"


section \<open>The transport frame (drexelprotocol/msgtype.h, drexelprotocol/pdu.h)\<close>

text \<open>
  \<^verbatim>\<open>int\<close> and \<^verbatim>\<open>unsigned int\<close> are 32-bit words: \<open>+\<close> wraps, \<open>sint\<close> reads
  a word as the signed value, \<open>unat\<close> as the unsigned one. A buffer is a list of bytes.
  The code moves a \<^verbatim>\<open>PDU\<close> between a buffer and a struct with \<^verbatim>\<open>memcpy\<close> and pointer
  casts, so the bytes are the host's representation of five \<^verbatim>\<open>int\<close>s without padding;
  the model takes the little-endian byte order that the specification fixes for the wire.
\<close>

type_synonym byte = "8 word"
type_synonym bytes = "byte list"
type_synonym c_int = "32 word"
type_synonym c_uint = "32 word"

definition bytes_of_int :: "c_int \<Rightarrow> bytes" where
  "bytes_of_int w = [ucast w, ucast (drop_bit 8 w), ucast (drop_bit 16 w), ucast (drop_bit 24 w)]"

definition int_of_bytes :: "bytes \<Rightarrow> c_int" where
  "int_of_bytes bs =
     ucast (bs ! 0) OR push_bit 8 (ucast (bs ! 1)) OR push_bit 16 (ucast (bs ! 2))
       OR push_bit 24 (ucast (bs ! 3))"

text \<open>\<^verbatim>\<open>memcpy(dst + off, src, length src)\<close> on a buffer that is long enough.\<close>

definition memcpy_at :: "nat \<Rightarrow> bytes \<Rightarrow> bytes \<Rightarrow> bytes" where
  "memcpy_at off src dst = take off dst @ src @ drop (off + length src) dst"

definition INI :: c_int where "INI = 0"
definition ACK :: c_int where "ACK = 1"
definition SND :: c_int where "SND = 2"
definition CONNECT :: c_int where "CONNECT = 4"
definition CLOSE :: c_int where "CLOSE = 8"
definition NACK :: c_int where "NACK = 16"
definition FRAGMENT :: c_int where "FRAGMENT = 32"
definition ERROR :: c_int where "ERROR = 64"
definition SNDACK :: c_int where "SNDACK = SND OR ACK"
definition CNTACK :: c_int where "CNTACK = CONNECT OR ACK"
definition CLOSEACK :: c_int where "CLOSEACK = CLOSE OR ACK"
definition SENDFRAGMENT :: c_int where "SENDFRAGMENT = FRAGMENT OR SND"
definition SENDFRAGMENTACK :: c_int where "SENDFRAGMENTACK = FRAGMENT OR SNDACK"

record PDU =
  proto_ver :: c_int
  mtype :: c_int
  seqnum :: c_int
  dgram_sz :: c_int
  err_num :: c_int

definition sizeof_PDU :: nat where
  "sizeof_PDU = 20"

definition bytes_of_PDU :: "PDU \<Rightarrow> bytes" where
  "bytes_of_PDU p =
     bytes_of_int (proto_ver p) @ bytes_of_int (mtype p) @ bytes_of_int (seqnum p)
       @ bytes_of_int (dgram_sz p) @ bytes_of_int (err_num p)"

text \<open>\<^verbatim>\<open>memcpy(&pdu, buff, sizeof(PDU))\<close>, for a buffer of at least 20 bytes.\<close>

definition PDU_of_bytes :: "bytes \<Rightarrow> PDU" where
  "PDU_of_bytes bs =
     \<lparr>proto_ver = int_of_bytes (take 4 bs),
      mtype = int_of_bytes (take 4 (drop 4 bs)),
      seqnum = int_of_bytes (take 4 (drop 8 bs)),
      dgram_sz = int_of_bytes (take 4 (drop 12 bs)),
      err_num = int_of_bytes (take 4 (drop 16 bs))\<rparr>"

section \<open>The connection endpoint (drexelprotocol/connection.h)\<close>

definition MAX_BUFF_SZ :: int where "MAX_BUFF_SZ = 512"
definition MAX_DGRAM_SZ :: int where "MAX_DGRAM_SZ = MAX_BUFF_SZ + int sizeof_PDU"
definition NO_ERROR :: int where "NO_ERROR = 0"
definition ERROR_GENERAL :: int where "ERROR_GENERAL = -1"
definition ERROR_PROTOCOL :: int where "ERROR_PROTOCOL = -2"
definition ERROR_BAD_DGRAM :: int where "ERROR_BAD_DGRAM = -32"
definition BUFF_UNDERSIZED :: int where "BUFF_UNDERSIZED = -4"
definition BUFF_OVERSIZED :: int where "BUFF_OVERSIZED = -8"
definition CONNECTION_CLOSED :: int where "CONNECTION_CLOSED = -16"

text \<open>
  An \<^verbatim>\<open>int\<close> compared with \<^verbatim>\<open>sizeof(PDU)\<close> is first converted to \<^verbatim>\<open>size_t\<close>
  (unsigned, 64 bits): \<open>-1\<close> becomes \<open>2 ^ 64 - 1\<close>. A \<^verbatim>\<open>size_t\<close> or \<^verbatim>\<open>ssize_t\<close>
  stored in an \<^verbatim>\<open>int\<close> keeps its low 32 bits, as the result of \<^verbatim>\<open>sendto\<close> in
  \<^verbatim>\<open>sendRaw\<close> does.
\<close>

definition size_t_of_int :: "int \<Rightarrow> int" where
  "size_t_of_int i = i mod 2 ^ 64"

definition int_of_size_t :: "int \<Rightarrow> int" where
  "int_of_size_t i = sint (word_of_int i :: c_int)"

text \<open>
  \<^verbatim>\<open>struct sockaddr_in\<close>: the four octets of the IPv4 address in network order, and the
  port. \<open>inet_ntoa\<close> belongs to the C library; it is modelled from POSIX: the octets in
  decimal, separated by dots.
\<close>

type_synonym in_addr = "byte \<times> byte \<times> byte \<times> byte"

record sockaddr_in =
  sin_addr :: in_addr
  sin_port :: "16 word"

definition digit :: "nat \<Rightarrow> char" where
  "digit d = char_of (48 + d)"

definition decimal :: "byte \<Rightarrow> string" where
  "decimal b =
     (let n = unat b in
      if n < 10 then [digit n]
      else if n < 100 then [digit (n div 10), digit (n mod 10)]
      else [digit (n div 100), digit ((n div 10) mod 10), digit (n mod 10)])"

fun inet_ntoa :: "in_addr \<Rightarrow> string" where
  "inet_ntoa (a, b, c, d) = decimal a @ ''.'' @ decimal b @ ''.'' @ decimal c @ ''.'' @ decimal d"

record Sock =
  len :: nat
  isAddrInit :: bool
  addr :: sockaddr_in

record Connection =
  udpSock :: int
  seqNum :: c_uint
  connected :: bool
  dbgMode :: int
  outSockAddr :: Sock
  inSockAddr :: Sock
  seqNums :: "string \<rightharpoonup> c_uint"
  c_buffer :: bytes

text \<open>
  The network is the environment. \<^verbatim>\<open>recvfrom\<close> blocks until a datagram arrives or
  the call fails; the model takes what it returned as an input. What \<^verbatim>\<open>sendto\<close> returns
  for a destination and a frame is an input too. Every call of \<^verbatim>\<open>sendto\<close> and of
  \<^verbatim>\<open>::close\<close> on the socket is recorded as an event; the later sections add the
  calls on a writer's channel. Output on \<^verbatim>\<open>std::cout\<close>, \<^verbatim>\<open>perror\<close> and the debug
  print of a PDU are left out.
\<close>

datatype recvfrom_result = Recvfrom_error | Datagram bytes sockaddr_in

type_synonym sendto_result = "sockaddr_in \<Rightarrow> bytes \<Rightarrow> int"

datatype event =
    Sendto sockaddr_in bytes
  | Close_socket int
  | Channel_close nat
  | Channel_send nat bytes

text \<open>
  \<open>recvRaw c buff rx\<close>: \<open>buff\<close> is the caller's buffer with the bytes it holds
  before the call, its length is the capacity \<^verbatim>\<open>buffSz\<close>. A datagram longer than the
  buffer is cut; the bytes of the buffer behind the received ones stay as they were.
\<close>

definition recvRaw :: "Connection \<Rightarrow> bytes \<Rightarrow> recvfrom_result \<Rightarrow> Connection \<times> bytes \<times> int" where
  "recvRaw c buff rx =
     (if \<not> isAddrInit (inSockAddr c) then (c, buff, -1)
      else case rx of
        Recvfrom_error \<Rightarrow> (c, buff, -1)
      | Datagram d src \<Rightarrow>
          (let n = min (length d) (length buff) in
           (c\<lparr>outSockAddr := \<lparr>len = 16, isAddrInit = True, addr = src\<rparr>\<rparr>,
            take n d @ drop n buff, int n)))"

definition sendRaw :: "Connection \<Rightarrow> bytes \<Rightarrow> sendto_result \<Rightarrow> event list \<times> int" where
  "sendRaw c sbuff tx =
     (if \<not> isAddrInit (outSockAddr c) then ([], -1)
      else ([Sendto (addr (outSockAddr c)) sbuff], int_of_size_t (tx (addr (outSockAddr c)) sbuff)))"

text \<open>
  The validation and the counter, as \<^verbatim>\<open>recvDgram\<close> and \<^verbatim>\<open>FTPServer::listen\<close>
  both write them: two tests one after the other on \<open>errCode\<close>, then the update.
\<close>

definition validate :: "int \<Rightarrow> PDU \<Rightarrow> int \<Rightarrow> int" where
  "validate bytesIn inPdu buffSz =
     (let errCode = (if size_t_of_int bytesIn < int sizeof_PDU then ERROR_BAD_DGRAM else NO_ERROR)
      in if sint (dgram_sz inPdu) > buffSz then BUFF_UNDERSIZED else errCode)"

definition advance :: "int \<Rightarrow> PDU \<Rightarrow> c_uint \<Rightarrow> c_uint" where
  "advance errCode inPdu n =
     (if errCode = NO_ERROR
      then (if dgram_sz inPdu = 0 then n + 1 else n + dgram_sz inPdu)
      else n + 1)"

definition response :: "c_uint \<Rightarrow> int \<Rightarrow> c_int \<Rightarrow> PDU" where
  "response n errCode m =
     \<lparr>proto_ver = 1, mtype = m, seqnum = n, dgram_sz = 0, err_num = word_of_int errCode\<rparr>"

record recv_result =
  conn :: Connection
  buff_out :: bytes
  events :: "event list"
  ret :: int

text \<open>The \<^verbatim>\<open>switch\<close> at the end of \<^verbatim>\<open>recvDgram\<close>; \<open>ev\<close> are the events so far.\<close>

definition recvDgram_switch ::
    "Connection \<Rightarrow> bytes \<Rightarrow> event list \<Rightarrow> PDU \<Rightarrow> int \<Rightarrow> int \<Rightarrow> sendto_result \<Rightarrow> recv_result" where
  "recvDgram_switch c buff ev inPdu errCode bytesIn tx =
     (if mtype inPdu = SND then
        (let (ev', actSndSz) = sendRaw c (bytes_of_PDU (response (seqNum c) errCode SNDACK)) tx in
         if size_t_of_int actSndSz \<noteq> int sizeof_PDU
         then \<lparr>conn = c, buff_out = buff, events = ev @ ev', ret = ERROR_PROTOCOL\<rparr>
         else \<lparr>conn = c, buff_out = buff, events = ev @ ev', ret = bytesIn\<rparr>)
      else if mtype inPdu = CLOSE then
        (let (ev', actSndSz) = sendRaw c (bytes_of_PDU (response (seqNum c) errCode CLOSEACK)) tx in
         if size_t_of_int actSndSz \<noteq> int sizeof_PDU
         then \<lparr>conn = c, buff_out = buff, events = ev @ ev', ret = ERROR_PROTOCOL\<rparr>
         else \<lparr>conn = c, buff_out = buff, events = ev @ ev' @ [Close_socket (udpSock c)],
                ret = CONNECTION_CLOSED\<rparr>)
      else \<lparr>conn = c, buff_out = buff, events = ev, ret = ERROR_PROTOCOL\<rparr>)"

text \<open>
  \<open>recvDgram c buff rx tx\<close>. The \<^verbatim>\<open>memcpy\<close> of the header reads 20 bytes of the
  caller's buffer whatever was received, so a buffer shorter than that is read past its
  end: undefined behaviour, \<open>None\<close>. After the \<^verbatim>\<open>ERROR\<close> response the code goes on to
  the \<^verbatim>\<open>switch\<close>.
\<close>

definition recvDgram ::
    "Connection \<Rightarrow> bytes \<Rightarrow> recvfrom_result \<Rightarrow> sendto_result \<Rightarrow> recv_result option" where
  "recvDgram c buff rx tx =
     (let buffSz = int (length buff) in
      if buffSz > MAX_DGRAM_SZ
      then Some \<lparr>conn = c, buff_out = buff, events = [], ret = BUFF_OVERSIZED\<rparr>
      else if length buff < sizeof_PDU then None
      else
        (let (c1, buff1, bytesIn) = recvRaw c buff rx;
             inPdu = PDU_of_bytes buff1;
             errCode = validate bytesIn inPdu buffSz;
             c2 = c1\<lparr>seqNum := advance errCode inPdu (seqNum c1)\<rparr>
         in if errCode \<noteq> NO_ERROR then
              (let (ev, actSndSz) = sendRaw c2 (bytes_of_PDU (response (seqNum c2) errCode ERROR)) tx in
               if size_t_of_int actSndSz \<noteq> int sizeof_PDU
               then Some \<lparr>conn = c2, buff_out = buff1, events = ev, ret = ERROR_PROTOCOL\<rparr>
               else Some (recvDgram_switch c2 buff1 ev inPdu errCode bytesIn tx))
            else if mtype inPdu AND FRAGMENT = FRAGMENT then
              (let (ev, actSndSz) =
                     sendRaw c2 (bytes_of_PDU (response (seqNum c2) errCode SENDFRAGMENTACK)) tx in
               if size_t_of_int actSndSz \<noteq> int sizeof_PDU
               then Some \<lparr>conn = c2, buff_out = buff1, events = ev, ret = ERROR_PROTOCOL\<rparr>
               else Some \<lparr>conn = c2, buff_out = buff1, events = ev, ret = bytesIn\<rparr>)
            else Some (recvDgram_switch c2 buff1 [] inPdu errCode bytesIn tx)))"

text \<open>
  \<open>sendDgram c sbuff sbuff_sz tx rx\<close>: the header is written through a pointer cast
  into \<open>c_buffer\<close>, which sets \<open>seqnum\<close>, \<open>mtype\<close> and \<open>dgram_sz\<close> and leaves
  the bytes of \<open>proto_ver\<close> and \<open>err_num\<close> as they were. The \<^verbatim>\<open>memcpy\<close> of the payload
  with a negative size, or with more bytes than \<open>sbuff\<close> holds, is undefined behaviour:
  \<open>None\<close>. \<open>rx\<close> is what \<^verbatim>\<open>recvfrom\<close> returns for the acknowledgement.
\<close>

record send_result =
  s_conn :: Connection
  s_events :: "event list"
  s_ret :: int

definition sendDgram ::
    "Connection \<Rightarrow> bytes \<Rightarrow> int \<Rightarrow> sendto_result \<Rightarrow> recvfrom_result \<Rightarrow> send_result option" where
  "sendDgram c sbuff sbuff_sz tx rx =
     (if \<not> isAddrInit (outSockAddr c)
      then Some \<lparr>s_conn = c, s_events = [], s_ret = ERROR_GENERAL\<rparr>
      else
        (let out_mtype = (if sbuff_sz > MAX_BUFF_SZ then SENDFRAGMENT else SND);
             out_dgram_sz = (if sbuff_sz > MAX_BUFF_SZ then MAX_BUFF_SZ else sbuff_sz)
         in if out_dgram_sz < 0 \<or> nat out_dgram_sz > length sbuff then None
            else
              (let header =
                     memcpy_at 12 (bytes_of_int (word_of_int out_dgram_sz))
                       (memcpy_at 4 (bytes_of_int out_mtype)
                          (memcpy_at 8 (bytes_of_int (seqNum c)) (c_buffer c)));
                   frame = memcpy_at sizeof_PDU (take (nat out_dgram_sz) sbuff) header;
                   totalSendSz = out_dgram_sz + int sizeof_PDU;
                   c1 = c\<lparr>c_buffer := frame\<rparr>;
                   (ev, bytesOut) = sendRaw c1 (take (nat totalSendSz) frame) tx;
                   c2 = c1\<lparr>seqNum := (if out_dgram_sz = 0 then seqNum c1 + 1
                                         else seqNum c1 + word_of_int out_dgram_sz)\<rparr>;
                   (c3, inPdu, bytesIn) = recvRaw c2 (replicate sizeof_PDU 0) rx
               in Some \<lparr>s_conn = c3, s_events = ev,
                         s_ret = int_of_size_t (size_t_of_int bytesOut - int sizeof_PDU)\<rparr>)))"

section \<open>The task executor (threadpool/workstealqueue.h, threadpool/threadqueue.h, threadpool.cpp)\<close>

text \<open>
  A \<^verbatim>\<open>WorkStealQueue\<close> is its \<^verbatim>\<open>std::deque\<close>, front first; a \<^verbatim>\<open>ThreadedQueue\<close>
  is its \<^verbatim>\<open>std::queue\<close>, front first. Each operation holds the queue's lock, so it is
  one atomic step; \<open>None\<close> is the result \<^verbatim>\<open>false\<close>.
\<close>

definition ws_push :: "'t \<Rightarrow> 't list \<Rightarrow> 't list" where
  "ws_push data deque = data # deque"



definition tq_push :: "'t \<Rightarrow> 't list \<Rightarrow> 't list" where
  "tq_push v q = q @ [v]"

record 't ThreadPool =
  threadCount :: nat
  done_flag :: bool
  workQueue :: "'t list"
  queues :: "'t list list"

text \<open>
  The thread-local variables of a thread: \<open>myIndex\<close>, and \<open>localWorkQueue\<close>, which
  is null (\<open>None\<close>) or points to the deque \<open>queues[i]\<close> (\<open>Some i\<close>).
  \<^verbatim>\<open>workerThread(i)\<close> sets them to \<open>i\<close> and \<open>queues[i]\<close>; on every other thread
  they keep their initial values.
\<close>

record thread_local =
  myIndex :: nat
  localWorkQueue :: "nat option"

definition main_thread :: thread_local where
  "main_thread = \<lparr>myIndex = 0, localWorkQueue = None\<rparr>"








definition submit :: "thread_local \<Rightarrow> 't \<Rightarrow> 't ThreadPool \<Rightarrow> 't ThreadPool" where
  "submit me task p =
     (case localWorkQueue me of
        Some i \<Rightarrow> p\<lparr>queues := (queues p)[i := ws_push task (queues p ! i)]\<rparr>
      | None \<Rightarrow> p\<lparr>workQueue := tq_push task (workQueue p)\<rparr>)"

section \<open>The writer (drexelprotocol/ftp.h, drexelprotocol/server.h, server.cpp)\<close>

text \<open>
  A \<^verbatim>\<open>std::string\<close> is a list of bytes. \<^verbatim>\<open>FTP_PDU\<close> is \<open>fileName\<close> (100 bytes),
  \<open>proto_ver\<close>, \<open>status\<close> and \<open>err\<close> (4 bytes each): \<open>status\<close> lies at offset 104
  and the struct has 112 bytes.
\<close>

definition sizeof_FTP_PDU :: nat where
  "sizeof_FTP_PDU = 112"

definition NEW :: c_int where "NEW = 0"
definition APPEND :: c_int where "APPEND = 1"

definition string_of_bytes :: "bytes \<Rightarrow> string" where
  "string_of_bytes bs = map (\<lambda>b. char_of (unat b)) bs"

definition bytes_of_string :: "string \<Rightarrow> bytes" where
  "bytes_of_string cs = map (\<lambda>c. of_nat (of_char c)) cs"

text \<open>
  \<open>pdu->fileName\<close> is used as a C string: the bytes up to the first zero byte. The
  buffer of a \<^verbatim>\<open>std::string\<close> ends with a zero byte, so the name ends there at the
  latest.
\<close>

definition fileName :: "bytes \<Rightarrow> string" where
  "fileName buff = string_of_bytes (takeWhile (\<lambda>b. b \<noteq> 0) buff)"

definition status :: "bytes \<Rightarrow> c_int" where
  "status buff = int_of_bytes (take 4 (drop 104 buff))"

text \<open>
  The constructor of \<^verbatim>\<open>FTPFileWriter\<close> calls \<^verbatim>\<open>makeChannel<std::string>(20)\<close>, which
  returns a \<^verbatim>\<open>bufferedChannel\<close> since the size is not 0 (lemma \<open>makeChannel_20\<close>
  below); \<open>stream\<close> is therefore modelled as a buffered channel.
\<close>

record FTPFileWriter =
  closed :: bool
  stream :: "bytes bufferedChannel"
  address :: string

definition FTPFileWriter_new :: "string \<Rightarrow> FTPFileWriter" where
  "FTPFileWriter_new a = \<lparr>closed = False, stream = bufferedChannel_size 20, address = a\<rparr>"

text \<open>
  \<open>pushToChannel t this buff buffSz w\<close>, called by thread \<open>t\<close> on the writer \<open>w\<close> at
  address \<open>this\<close>. \<^verbatim>\<open>std::string(buff, buffSz)\<close> converts \<open>buffSz\<close> to \<^verbatim>\<open>size_t\<close>; a
  negative one exceeds \<^verbatim>\<open>max_size()\<close> and the constructor throws
  \<^verbatim>\<open>std::length_error\<close>. In every call of the program \<open>buff\<close> holds \<open>buffSz\<close> bytes
  or more.
\<close>

definition pushToChannel ::
    "tid \<Rightarrow> nat \<Rightarrow> bytes \<Rightarrow> int \<Rightarrow> FTPFileWriter \<Rightarrow> event list \<times> (unit, FTPFileWriter) outcome" where
  "pushToChannel t this buff buffSz w =
     (if buffSz < 0 then ([], Throws ''std::length_error'' w)
      else
        (let msg = take (nat buffSz) buff in
         ([Channel_send this msg],
          case send t msg (stream w) of
            Returns u ch \<Rightarrow> Returns () (w\<lparr>stream := ch\<rparr>)
          | Throws e ch \<Rightarrow> Throws e (w\<lparr>stream := ch\<rparr>)
          | Blocks ch \<Rightarrow> Blocks (w\<lparr>stream := ch\<rparr>))))"

text \<open>
  \<^verbatim>\<open>serverLoop\<close>, run by thread \<open>t\<close> until it returns, waits in \<^verbatim>\<open>receive\<close>, or
  ends the process. Whether a file can be opened is the environment's answer
  \<open>can_open\<close>; \<open>files\<close> maps the names of the existing files to their contents.
  Reading \<open>status\<close> from a message of fewer than 108 bytes reads past its end:
  undefined behaviour. \<^verbatim>\<open>exit(-1)\<close> ends the whole process, all threads included.
\<close>

datatype writer_exit = Task_returns | Task_waits | Process_exit int | Undefined_read

record writer_result =
  w_writer :: FTPFileWriter
  w_files :: "string \<rightharpoonup> bytes"
  w_stderr :: "string list"
  w_exit :: writer_exit

definition write_file :: "c_int \<Rightarrow> string \<Rightarrow> bytes \<Rightarrow> (string \<rightharpoonup> bytes) \<Rightarrow> (string \<rightharpoonup> bytes)" where
  "write_file st name data files =
     (if st = NEW then files(name \<mapsto> data)
      else files(name \<mapsto> (case files name of None \<Rightarrow> [] | Some old \<Rightarrow> old) @ data))"

function serverLoop ::
    "tid \<Rightarrow> (string \<Rightarrow> bool) \<Rightarrow> FTPFileWriter \<Rightarrow> (string \<rightharpoonup> bytes) \<Rightarrow> string list \<Rightarrow> writer_result" where
  "serverLoop t can_open w files log =
     (if isClosed (stream w)
      then \<lparr>w_writer = w\<lparr>closed := True\<rparr>, w_files = files, w_stderr = log, w_exit = Task_returns\<rparr>
      else
        (case receive t (stream w) of
           Throws e ch \<Rightarrow>
             \<lparr>w_writer = w\<lparr>stream := ch, closed := True\<rparr>, w_files = files, w_stderr = log,
              w_exit = Task_returns\<rparr>
         | Blocks ch \<Rightarrow>
             \<lparr>w_writer = w\<lparr>stream := ch\<rparr>, w_files = files, w_stderr = log, w_exit = Task_waits\<rparr>
         | Returns buff ch \<Rightarrow>
             if length buff < 108
             then \<lparr>w_writer = w\<lparr>stream := ch\<rparr>, w_files = files, w_stderr = log,
                   w_exit = Undefined_read\<rparr>
             else if \<not> can_open (fileName buff)
             then \<lparr>w_writer = w\<lparr>stream := ch\<rparr>, w_files = files,
                   w_stderr = log @ [''ERROR:  Cannot open file '' @ fileName buff],
                   w_exit = Process_exit (-1)\<rparr>
             else serverLoop t can_open (w\<lparr>stream := ch\<rparr>)
                    (write_file (status buff) (fileName buff) (drop sizeof_FTP_PDU buff) files) log))"
  by pat_completeness auto
termination
  by (relation "measure (\<lambda>(t, can_open, w, files, log). length (buffer (stream w)))")
     (auto simp: receive_def receive_wait_def split: if_splits)

declare serverLoop.simps [simp del]

section \<open>The dispatcher (drexelprotocol/server.h, server.cpp)\<close>

text \<open>
  A \<^verbatim>\<open>FTPFileWriter*\<close> is a number; \<open>heap\<close> maps the pointers of the live writers to
  the objects and \<open>next_new\<close> is the pointer the next \<^verbatim>\<open>new\<close> returns. The task given
  to the pool is the lambda of \<^verbatim>\<open>listen\<close>; it captures \<^verbatim>\<open>this\<close> only, so all such
  tasks are the same value. \<^verbatim>\<open>listen\<close> runs on the main thread, and the steps of the
  worker threads are not interleaved with it.
\<close>

datatype task = Writer_task

record FTPServer =
  dpc :: Connection
  srv_connected :: c_int
  pool :: "task ThreadPool"
  fw :: "nat list"
  ftpWriters :: "string \<rightharpoonup> nat"
  heap :: "nat \<rightharpoonup> FTPFileWriter"
  next_new :: nat

datatype exit = Normal | Exception string | Undefined_behaviour | Blocked

record listen_result =
  srv :: FTPServer
  trace :: "event list"
  how :: exit

definition dispatcher :: tid where
  "dispatcher = 0"

text \<open>\<^verbatim>\<open>seqNums[key]\<close> read: a key that is absent is inserted with the value 0.\<close>

definition seq_at :: "(string \<rightharpoonup> c_uint) \<Rightarrow> string \<Rightarrow> c_uint" where
  "seq_at m key = (case m key of None \<Rightarrow> 0 | Some n \<Rightarrow> n)"

text \<open>
  The branch \<^verbatim>\<open>rcvSz == sizeof(PDU)\<close>. \<^verbatim>\<open>PDU pdu;\<close> initialises \<open>proto_ver\<close> only;
  \<open>dgram_sz\<close> and \<open>err_num\<close> of the frame sent are what the stack held, the
  parameter \<open>uninit\<close>.
\<close>

definition listen_connect :: "PDU \<Rightarrow> sendto_result \<Rightarrow> string \<Rightarrow> FTPServer \<Rightarrow> listen_result" where
  "listen_connect uninit tx a s =
     (let pdu = uninit\<lparr>proto_ver := 1, seqnum := 0, mtype := CNTACK\<rparr>;
          c1 = (dpc s)\<lparr>seqNums := (seqNums (dpc s))(a \<mapsto> seqnum pdu + 1)\<rparr>;
          pdu1 = pdu\<lparr>seqnum := seq_at (seqNums c1) a\<rparr>;
          (ev, sndSz) = sendRaw c1 (bytes_of_PDU pdu1) tx;
          this = next_new s;
          fw1 = fw s @ [this]
      in \<lparr>srv = s\<lparr>dpc := c1,
                    srv_connected := srv_connected s + 1,
                    pool := submit main_thread Writer_task (pool s),
                    fw := fw1,
                    ftpWriters := (ftpWriters s)(a \<mapsto> last fw1),
                    heap := (heap s)(this \<mapsto> FTPFileWriter_new a),
                    next_new := this + 1\<rparr>,
          trace = ev, how = Normal\<rparr>)"

text \<open>
  \<^verbatim>\<open>ftpWriters[address]->...\<close>: for a key that is absent \<^verbatim>\<open>operator[]\<close> inserts a
  null pointer, and the call through it is undefined behaviour.
\<close>

definition writer_at :: "FTPServer \<Rightarrow> string \<Rightarrow> (nat \<times> FTPFileWriter) option" where
  "writer_at s a =
     (case ftpWriters s a of
        None \<Rightarrow> None
      | Some this \<Rightarrow> (case heap s this of None \<Rightarrow> None | Some w \<Rightarrow> Some (this, w)))"

text \<open>The last statement of the \<^verbatim>\<open>else\<close> branch, after the events \<open>ev\<close>.\<close>

definition listen_push :: "event list \<Rightarrow> string \<Rightarrow> bytes \<Rightarrow> int \<Rightarrow> FTPServer \<Rightarrow> listen_result" where
  "listen_push ev a buff buffSz s =
     (case writer_at s a of
        None \<Rightarrow> \<lparr>srv = s, trace = ev, how = Undefined_behaviour\<rparr>
      | Some (this, w) \<Rightarrow>
          (case pushToChannel dispatcher this buff buffSz w of
             (ev', Returns u w') \<Rightarrow>
               \<lparr>srv = s\<lparr>heap := (heap s)(this \<mapsto> w')\<rparr>, trace = ev @ ev', how = Normal\<rparr>
           | (ev', Throws e w') \<Rightarrow>
               \<lparr>srv = s\<lparr>heap := (heap s)(this \<mapsto> w')\<rparr>, trace = ev @ ev', how = Exception e\<rparr>
           | (ev', Blocks w') \<Rightarrow>
               \<lparr>srv = s\<lparr>heap := (heap s)(this \<mapsto> w')\<rparr>, trace = ev @ ev', how = Blocked\<rparr>))"

text \<open>
  The \<^verbatim>\<open>else\<close> branch. \<^verbatim>\<open>case MsgType::CLOSE\<close> has no \<^verbatim>\<open>break\<close> and falls through
  to \<^verbatim>\<open>default\<close>, which only prints; the call of \<^verbatim>\<open>pushToChannel\<close> follows the
  whole \<^verbatim>\<open>if\<close> chain.
\<close>

definition listen_frame :: "sendto_result \<Rightarrow> string \<Rightarrow> int \<Rightarrow> FTPServer \<Rightarrow> listen_result" where
  "listen_frame tx a rcvSz s =
     (let buffSz = MAX_DGRAM_SZ;
          inPdu = PDU_of_bytes (c_buffer (dpc s));
          errCode = validate rcvSz inPdu buffSz;
          n = advance errCode inPdu (seq_at (seqNums (dpc s)) a);
          c1 = (dpc s)\<lparr>seqNums := (seqNums (dpc s))(a \<mapsto> n)\<rparr>;
          s1 = s\<lparr>dpc := c1\<rparr>;
          payload = drop sizeof_PDU (c_buffer c1);
          payloadSz = int_of_size_t (size_t_of_int rcvSz - int sizeof_PDU)
      in if errCode \<noteq> NO_ERROR then
           listen_push (fst (sendRaw c1 (bytes_of_PDU (response n errCode ERROR)) tx))
             a payload payloadSz s1
         else if mtype inPdu AND FRAGMENT = FRAGMENT then
           listen_push (fst (sendRaw c1 (bytes_of_PDU (response n errCode SENDFRAGMENTACK)) tx))
             a payload payloadSz s1
         else if mtype inPdu = SND then
           listen_push (fst (sendRaw c1 (bytes_of_PDU (response n errCode SNDACK)) tx))
             a payload payloadSz s1
         else if mtype inPdu = CLOSE then
           (let ev = fst (sendRaw c1 (bytes_of_PDU (response n errCode CLOSEACK)) tx) in
            case writer_at s1 a of
              None \<Rightarrow> \<lparr>srv = s1, trace = ev, how = Undefined_behaviour\<rparr>
            | Some (this, w) \<Rightarrow>
                listen_push (ev @ [Channel_close this]) a payload payloadSz
                  (s1\<lparr>heap := (heap s1)(this \<mapsto> w\<lparr>stream := close (stream w)\<rparr>)\<rparr>))
         else listen_push [] a payload payloadSz s1)"

definition listen :: "PDU \<Rightarrow> recvfrom_result \<Rightarrow> sendto_result \<Rightarrow> FTPServer \<Rightarrow> listen_result" where
  "listen uninit rx tx s =
     (let c0 = (dpc s)\<lparr>c_buffer := replicate (nat MAX_DGRAM_SZ) 0\<rparr>;
          (c1, buf, rcvSz) = recvRaw c0 (c_buffer c0) rx;
          c2 = c1\<lparr>c_buffer := buf\<rparr>;
          a = inet_ntoa (sin_addr (addr (outSockAddr c2)))
      in if size_t_of_int rcvSz = int sizeof_PDU
         then listen_connect uninit tx a (s\<lparr>dpc := c2\<rparr>)
         else listen_frame tx a rcvSz (s\<lparr>dpc := c2\<rparr>))"

section \<open>Observations on a run\<close>

text \<open>
  The frames of the \<^verbatim>\<open>sendto\<close> calls of a trace, decoded, in the order of the calls;
  the events on a writer's channel; and the order the claims ask for: once a channel
  event has occurred, only channel events follow, so every response was sent before.
\<close>

definition responses :: "event list \<Rightarrow> PDU list" where
  "responses evs =
     concat (map (\<lambda>e. case e of Sendto dest frame \<Rightarrow> [PDU_of_bytes frame] | _ \<Rightarrow> []) evs)"

fun is_channel_event :: "event \<Rightarrow> bool" where
  "is_channel_event (Channel_close this) = True"
| "is_channel_event (Channel_send this msg) = True"
| "is_channel_event _ = False"

fun responses_before_dispatch :: "event list \<Rightarrow> bool" where
  "responses_before_dispatch [] = True"
| "responses_before_dispatch (e # es) =
     (if is_channel_event e then list_all is_channel_event es else responses_before_dispatch es)"

text \<open>
  \<open>filled d buff\<close> is the buffer \<open>buff\<close> after \<^verbatim>\<open>recvfrom\<close> has stored the datagram
  \<open>d\<close> in it, and \<open>zeroed\<close> the buffer after \<^verbatim>\<open>memset(_buffer, 0, sizeof(_buffer))\<close>.
  \<open>classify d buff\<close> is the error code of the validation with the integer conversions
  of \<open>validate\<close> resolved (lemma \<open>validate_received\<close>), \<open>after_recv\<close> the connection
  when \<^verbatim>\<open>recvDgram\<close> has received \<open>d\<close> from \<open>src\<close>, and \<open>listening\<close> the server
  when \<^verbatim>\<open>listen\<close> has.
\<close>

definition filled :: "bytes \<Rightarrow> bytes \<Rightarrow> bytes" where
  "filled d buff = take (min (length d) (length buff)) d @ drop (min (length d) (length buff)) buff"

definition zeroed :: bytes where
  "zeroed = replicate (nat MAX_DGRAM_SZ) 0"

definition classify :: "bytes \<Rightarrow> bytes \<Rightarrow> int" where
  "classify d buff =
     (if sint (dgram_sz (PDU_of_bytes (filled d buff))) > int (length buff) then BUFF_UNDERSIZED
      else if min (length d) (length buff) < sizeof_PDU then ERROR_BAD_DGRAM
      else NO_ERROR)"

definition after_recv :: "Connection \<Rightarrow> bytes \<Rightarrow> bytes \<Rightarrow> sockaddr_in \<Rightarrow> Connection" where
  "after_recv c d buff src =
     c\<lparr>outSockAddr := \<lparr>len = 16, isAddrInit = True, addr = src\<rparr>,
       seqNum := advance (classify d buff) (PDU_of_bytes (filled d buff)) (seqNum c)\<rparr>"

definition listening :: "FTPServer \<Rightarrow> bytes \<Rightarrow> sockaddr_in \<Rightarrow> FTPServer" where
  "listening s d src =
     s\<lparr>dpc := (dpc s)\<lparr>outSockAddr := \<lparr>len = 16, isAddrInit = True, addr = src\<rparr>,
                       c_buffer := filled d zeroed\<rparr>\<rparr>"




definition seq_step :: "PDU \<Rightarrow> c_uint" where
  "seq_step p = (if dgram_sz p = 0 then 1 else dgram_sz p)"

section \<open>Notions and inputs for the properties\<close>



definition full_one :: "string bufferedChannel" where
  "full_one = chan (chan_run (bufferedChannel_size 1) [Send 1 ''a'', Send 2 ''b''])"






text \<open>
  A peer, an endpoint bound as the constructor of \<^verbatim>\<open>FTPServer\<close> binds it, a network
  that sends every frame whole, some content of the stack, a server with one writer for
  the peer, and frames: \<open>SND\<close> with three bytes, \<open>CONNECT\<close>, 16 bytes that declare a
  \<open>dgram_sz\<close> of 1000, four bytes, \<open>SND\<close> declaring 600 bytes, and \<open>CLOSE\<close> without
  and with payload.
\<close>

definition peer :: sockaddr_in where
  "peer = \<lparr>sin_addr = (127, 0, 0, 1), sin_port = 40000\<rparr>"

definition example_conn :: Connection where
  "example_conn =
     \<lparr>udpSock = 3, seqNum = 1, connected = True, dbgMode = 1,
      outSockAddr = \<lparr>len = 16, isAddrInit = True, addr = peer\<rparr>,
      inSockAddr = \<lparr>len = 16, isAddrInit = True,
                    addr = \<lparr>sin_addr = (0, 0, 0, 0), sin_port = 2080\<rparr>\<rparr>,
      seqNums = Map.empty,
      c_buffer = replicate 532 0\<rparr>"

definition all_sent :: sendto_result where
  "all_sent dest frame = int (length frame)"

definition stack_junk :: PDU where
  "stack_junk = \<lparr>proto_ver = 0, mtype = 0, seqnum = 0, dgram_sz = 77, err_num = 99\<rparr>"

definition example_server :: FTPServer where
  "example_server =
     \<lparr>dpc = example_conn, srv_connected = 1,
      pool = \<lparr>threadCount = 2, done_flag = False, workQueue = [], queues = [[], []]\<rparr>,
      fw = [],
      ftpWriters = [''127.0.0.1'' \<mapsto> 1],
      heap = [1 \<mapsto> FTPFileWriter_new ''127.0.0.1''],
      next_new = 2\<rparr>"

definition snd_frame :: bytes where
  "snd_frame =
     bytes_of_PDU \<lparr>proto_ver = 1, mtype = SND, seqnum = 1, dgram_sz = 3, err_num = 0\<rparr> @ [1, 2, 3]"

definition connect_frame :: bytes where
  "connect_frame =
     bytes_of_PDU \<lparr>proto_ver = 1, mtype = CONNECT, seqnum = 0, dgram_sz = 0, err_num = 0\<rparr>"

definition short_frame :: bytes where
  "short_frame = replicate 12 0 @ bytes_of_int 1000"

definition four_bytes :: bytes where
  "four_bytes = [1, 0, 0, 0]"



definition close_frame :: bytes where
  "close_frame =
     bytes_of_PDU \<lparr>proto_ver = 1, mtype = CLOSE, seqnum = 4, dgram_sz = 0, err_num = 0\<rparr>"

definition close_frame_with_payload :: bytes where
  "close_frame_with_payload =
     bytes_of_PDU \<lparr>proto_ver = 1, mtype = CLOSE, seqnum = 4, dgram_sz = 3, err_num = 0\<rparr>
       @ [1, 2, 3]"

text \<open>
  \<open>peer_view\<close> is all that a call of \<^verbatim>\<open>listen\<close> leaves behind apart from the socket
  addresses of the connection and the frames sent: the sequence table, the map of the
  writers, the writers with their channels, the pool, how the call ended and the channel
  events. \<open>with_out out s\<close> is the server \<open>s\<close> with another last sender.
\<close>

type_synonym peer_view =
  "(string \<rightharpoonup> c_uint) \<times> (string \<rightharpoonup> nat) \<times> (nat \<rightharpoonup> FTPFileWriter) \<times> nat list \<times>
   task ThreadPool \<times> nat \<times> c_int \<times> exit \<times> event list"

definition peer_view :: "listen_result \<Rightarrow> peer_view" where
  "peer_view r =
     (seqNums (dpc (srv r)), ftpWriters (srv r), heap (srv r), fw (srv r), pool (srv r),
      next_new (srv r), srv_connected (srv r), how r, filter is_channel_event (trace r))"

definition with_out :: "Sock \<Rightarrow> FTPServer \<Rightarrow> FTPServer" where
  "with_out out s = s\<lparr>dpc := (dpc s)\<lparr>outSockAddr := out\<rparr>\<rparr>"

text \<open>
  What a datagram \<open>d\<close> that is not taken for a connect does to the writer of its
  sender: \<open>payload_of d\<close> is the message handed to \<^verbatim>\<open>pushToChannel\<close>, the bytes
  behind the header of the at most \<open>MAX_DGRAM_SZ\<close> bytes received; \<open>closing d\<close>
  holds when the \<^verbatim>\<open>if\<close> chain reaches \<^verbatim>\<open>case MsgType::CLOSE\<close>;
  \<open>counter_step d\<close> is what the sequence counter grows by; \<open>pushed d w\<close> is the
  buffer of the channel of the writer \<open>w\<close> afterwards, and \<open>channel_events this d\<close>
  are the calls on the channel of the writer at \<open>this\<close>.
\<close>

definition payload_of :: "bytes \<Rightarrow> bytes" where
  "payload_of d = drop sizeof_PDU (take (nat MAX_DGRAM_SZ) d)"

definition closing :: "bytes \<Rightarrow> bool" where
  "closing d = (classify d zeroed = NO_ERROR \<and> mtype (PDU_of_bytes (filled d zeroed)) = CLOSE)"

definition counter_step :: "bytes \<Rightarrow> c_uint" where
  "counter_step d =
     (if classify d zeroed \<noteq> NO_ERROR then 1 else seq_step (PDU_of_bytes (filled d zeroed)))"

definition pushed :: "bytes \<Rightarrow> FTPFileWriter \<Rightarrow> bytes list" where
  "pushed d w =
     (if 20 < length d \<and> \<not> closing d \<and> open (stream w) \<and> has_room (stream w)
      then buffer (stream w) @ [payload_of d] else buffer (stream w))"

definition channel_events :: "nat \<Rightarrow> bytes \<Rightarrow> event list" where
  "channel_events this d =
     (if closing d then [Channel_close this] else []) @
     (if 20 < length d then [Channel_send this (payload_of d)] else [])"

text \<open>
  An \<^verbatim>\<open>FTP_PDU\<close> followed by data, a writer whose channel holds given messages, an
  environment in which no file can be opened, and a message for the file out.txt.
\<close>

definition ftp_message :: "string \<Rightarrow> c_int \<Rightarrow> bytes \<Rightarrow> bytes" where
  "ftp_message name st data =
     bytes_of_string name @ replicate (100 - length name) 0 @ bytes_of_int 1 @ bytes_of_int st
       @ bytes_of_int 0 @ data"

definition writer_with :: "bytes list \<Rightarrow> FTPFileWriter" where
  "writer_with msgs =
     \<lparr>closed = False, stream = (bufferedChannel_size 20)\<lparr>buffer := msgs\<rparr>,
      address = ''127.0.0.1''\<rparr>"

definition nothing_opens :: "string \<Rightarrow> bool" where
  "nothing_opens name = False"

definition out_message :: bytes where
  "out_message = ftp_message ''out.txt'' NEW [65, 66]"

section \<open>Properties of the channel\<close>

lemma makeChannel_20: "makeChannel dflt 20 = Buffered (bufferedChannel_size 20)"
  by (simp add: makeChannel_def)







lemma chan_step_open_iff:
  "open (chan (chan_step r op)) = (open (chan r) \<and> op \<noteq> Close)"
  by (cases op)
     (auto simp: after_send_def after_receive_def send_def send_wait_def receive_def
        receive_wait_def close_def)

lemma foldl_chan_step_open_iff:
  "open (chan (foldl chan_step r ops)) = (open (chan r) \<and> Close \<notin> set ops)"
  by (induction ops arbitrary: r) (auto simp: chan_step_open_iff)



text \<open>
  C5, as the claim states it, fails: \<^verbatim>\<open>close\<close> notifies the condition variable
  \<open>receiver\<close> only. On a channel of capacity 1, thread 1 sends, thread 2 sends and
  blocks; after \<^verbatim>\<open>close\<close> thread 2 still waits, and its send is still blocked.
\<close>

theorem close_leaves_sender_waiting:
  "sender full_one = [2] \<and> sender (close full_one) = [2] \<and>
   is_blocked (send_wait 2 ''b'' (close full_one))"
  by (simp add: full_one_def chan_run_def bufferedChannel_size_def after_send_def send_def
      send_wait_def has_room_def notify_one_def wait_def close_def notify_all_def)

text \<open>
  C5, amended. \<^verbatim>\<open>close\<close> wakes every thread that waits on \<open>receiver\<close>, leaves the
  threads that wait on \<open>sender\<close> waiting and leaves the buffer as it is. In every state
  the channel reaches afterwards, a send throws and changes nothing, and a receive
  returns the oldest buffered value while there is one and throws once the buffer is
  empty. For a channel followed from its construction, \<^verbatim>\<open>isClosed\<close> is true exactly
  when \<^verbatim>\<open>close\<close> has been called and the buffer is empty.
\<close>

theorem close_then_operations:
  "let c = close ch; c' = chan (chan_run c ops) in
     receiver c = [] \<and> sender c = sender ch \<and> buffer c = buffer ch \<and>
     is_thrown (send t v c') \<and> state_of (send t v c') = c' \<and>
     receive t c' =
       (if buffer c' = [] then Throws ''Receive on Closed Channel.'' c'
        else Returns (hd (buffer c'))
               (c'\<lparr>buffer := tl (buffer c'), sender := notify_one (sender c')\<rparr>)) \<and>
     isClosed (chan (chan_run (bufferedChannel_size n) ops)) =
       (Close \<in> set ops \<and> buffer (chan (chan_run (bufferedChannel_size n) ops)) = [])"
proof -
  define c' where "c' = chan (chan_run (close ch) ops)"
  have closed: "\<not> open c'"
    unfolding c'_def chan_run_def by (simp add: foldl_chan_step_open_iff close_def)
  have wake: "receiver (close ch) = []" "sender (close ch) = sender ch"
    "buffer (close ch) = buffer ch"
    by (simp_all add: close_def notify_all_def)
  have snd: "is_thrown (send t v c')" "state_of (send t v c') = c'"
    using closed by (simp_all add: send_def)
  have rcv: "receive t c' =
       (if buffer c' = [] then Throws ''Receive on Closed Channel.'' c'
        else Returns (hd (buffer c'))
               (c'\<lparr>buffer := tl (buffer c'), sender := notify_one (sender c')\<rparr>))"
    using closed by (simp add: receive_def receive_wait_def)
  have "open (chan (chan_run (bufferedChannel_size n) ops)) = (Close \<notin> set ops)"
    unfolding chan_run_def by (simp add: foldl_chan_step_open_iff bufferedChannel_size_def)
  then have isc: "isClosed (chan (chan_run (bufferedChannel_size n) ops)) =
       (Close \<in> set ops \<and> buffer (chan (chan_run (bufferedChannel_size n) ops)) = [])"
    by (simp add: isClosed_def)
  show ?thesis
    unfolding Let_def c'_def [symmetric]
    using wake snd rcv isc by simp
qed

theorem close_then_operations_witness:
  "receiver (close full_one) = [] \<and>
   is_thrown (send 4 ''c'' (close full_one)) \<and>
   returned (receive 4 (close full_one)) = Some ''a'' \<and>
   isClosed (chan (chan_run (bufferedChannel_size 1) [Send 1 ''a'', Close, Receive 4]))"
proof -
  have b: "buffer (close full_one) = [''a'']"
    by (simp add: full_one_def chan_run_def bufferedChannel_size_def after_send_def send_def
        send_wait_def has_room_def notify_one_def wait_def close_def notify_all_def)
  have e: "chan (chan_run (close full_one) []) = close full_one"
    by (simp add: chan_run_def)
  have d: "buffer (chan (chan_run (bufferedChannel_size 1) [Send 1 ''a'', Close, Receive 4])) = []"
    by (simp add: chan_run_def bufferedChannel_size_def after_send_def after_receive_def
        send_def send_wait_def receive_def receive_wait_def has_room_def notify_one_def
        close_def notify_all_def)
  have first: "receiver (close full_one) = [] \<and> is_thrown (send 4 ''c'' (close full_one)) \<and>
      returned (receive 4 (close full_one)) = Some ''a''"
    using close_then_operations [where ch = full_one and ops = "[]" and t = 4 and v = "''c''"
        and n = 1] b e
    by (simp add: Let_def)
  have last: "isClosed (chan (chan_run (bufferedChannel_size 1) [Send 1 ''a'', Close, Receive 4]))"
    using close_then_operations [where ch = full_one
        and ops = "[Send 1 ''a'', Close, Receive 4]" and t = 4 and v = "''c''" and n = 1] d
    by (simp add: Let_def)
  show ?thesis
    using first last by simp
qed

section \<open>Properties of the task executor\<close>















section \<open>Properties of the connection endpoint\<close>

subsection \<open>Bytes\<close>

lemma int_of_bytes_of_int: "int_of_bytes (bytes_of_int w) = w"
proof (rule bit_word_eqI)
  fix n :: nat
  assume "n < LENGTH(32)"
  then have n: "n < 32" by simp
  consider "n < 8" | "8 \<le> n" "n < 16" | "16 \<le> n" "n < 24" | "24 \<le> n" "n < 32"
    using n by linarith
  then show "bit (int_of_bytes (bytes_of_int w)) n = bit w n"
    by cases (auto simp: int_of_bytes_def bytes_of_int_def bit_simps)
qed

lemma length_bytes_of_int: "length (bytes_of_int w) = 4"
  by (simp add: bytes_of_int_def)

lemma length_bytes_of_PDU: "length (bytes_of_PDU p) = 20"
  by (simp add: bytes_of_PDU_def length_bytes_of_int)

lemma PDU_of_bytes_of_PDU: "PDU_of_bytes (bytes_of_PDU p @ rest) = p"
  by (simp add: PDU_of_bytes_def bytes_of_PDU_def length_bytes_of_int int_of_bytes_of_int)

lemma length_memcpy_at:
  "off + length src \<le> length dst \<Longrightarrow> length (memcpy_at off src dst) = length dst"
  by (simp add: memcpy_at_def)

lemma read_memcpy_at:
  "off \<le> length dst \<Longrightarrow> take (length src) (drop off (memcpy_at off src dst)) = src"
  by (simp add: memcpy_at_def)

lemma read_before_memcpy_at:
  assumes "o' + k \<le> off" and "off \<le> length dst"
  shows "take k (drop o' (memcpy_at off src dst)) = take k (drop o' dst)"
proof -
  have "take (o' + k) (memcpy_at off src dst) = take (o' + k) dst"
    using assms by (simp add: memcpy_at_def min_def)
  then have "drop o' (take (o' + k) (memcpy_at off src dst)) = drop o' (take (o' + k) dst)"
    by simp
  then show ?thesis
    by (simp add: drop_take)
qed

lemma read_after_memcpy_at:
  "off + length src \<le> o' \<Longrightarrow> off \<le> length dst \<Longrightarrow>
   take k (drop o' (memcpy_at off src dst)) = take k (drop o' dst)"
  by (simp add: memcpy_at_def)

lemma int_of_size_t_small: "- (2 ^ 31) \<le> k \<Longrightarrow> k < 2 ^ 31 \<Longrightarrow> int_of_size_t k = k"
  by (simp add: int_of_size_t_def sint_sbintrunc' signed_take_bit_int_eq_self)

lemma size_t_of_int_small: "0 \<le> k \<Longrightarrow> k < 2 ^ 64 \<Longrightarrow> size_t_of_int k = k"
  by (simp add: size_t_of_int_def)

lemma sint_small: "0 \<le> n \<Longrightarrow> n \<le> 512 \<Longrightarrow> sint (word_of_int n :: c_int) = n"
  by (simp add: sint_sbintrunc' signed_take_bit_int_eq_self)

subsection \<open>sendDgram\<close>

text \<open>
  C8. For every call \<open>sendDgram(payload, n)\<close> with an initialised peer address, where
  \<open>payload\<close> holds the \<open>n \<ge> 0\<close> bytes and \<open>c_buffer\<close> has its \<open>MAX_DGRAM_SZ\<close>
  bytes: exactly one frame is handed to \<^verbatim>\<open>sendto\<close>, for the peer; its header has
  \<open>mtype = SND\<close> if \<open>n \<le> MAX_BUFF_SZ\<close> and \<open>SENDFRAGMENT\<close> otherwise,
  \<open>dgram_sz = min n MAX_BUFF_SZ\<close> and the current sequence number; the bytes behind the
  20 bytes of the header are the first \<open>dgram_sz\<close> bytes of the payload and the frame
  ends there; and when \<^verbatim>\<open>sendto\<close> reports the whole frame sent, the call returns
  \<open>dgram_sz\<close>, the number of payload bytes without the header. (The call returns once
  \<^verbatim>\<open>recvfrom\<close> has returned for the acknowledgement, whatever it returned.)
\<close>

theorem sendDgram_frame:
  assumes "isAddrInit (outSockAddr c)" and "0 \<le> n" and "nat n \<le> length sbuff"
    and "length (c_buffer c) = nat MAX_DGRAM_SZ"
  shows "\<exists>frame r.
           sendDgram c sbuff n tx rx = Some r \<and>
           s_events r = [Sendto (addr (outSockAddr c)) frame] \<and>
           mtype (PDU_of_bytes frame) = (if n \<le> MAX_BUFF_SZ then SND else SENDFRAGMENT) \<and>
           sint (dgram_sz (PDU_of_bytes frame)) = min n MAX_BUFF_SZ \<and>
           seqnum (PDU_of_bytes frame) = seqNum c \<and>
           drop sizeof_PDU frame = take (nat (min n MAX_BUFF_SZ)) sbuff \<and>
           (tx (addr (outSockAddr c)) frame = int (length frame) \<longrightarrow>
              s_ret r = min n MAX_BUFF_SZ)"
proof -
  define d where "d = (if n > MAX_BUFF_SZ then MAX_BUFF_SZ else n)"
  define m where "m = (if n > MAX_BUFF_SZ then SENDFRAGMENT else SND)"
  define h0 where "h0 = memcpy_at 8 (bytes_of_int (seqNum c)) (c_buffer c)"
  define h1 where "h1 = memcpy_at 4 (bytes_of_int m) h0"
  define header where "header = memcpy_at 12 (bytes_of_int (word_of_int d)) h1"
  define buf where "buf = memcpy_at sizeof_PDU (take (nat d) sbuff) header"
  define frame where "frame = take (nat (d + int sizeof_PDU)) buf"
  have d: "0 \<le> d" "d \<le> 512" "nat d \<le> length sbuff" "d = min n MAX_BUFF_SZ"
    using assms(2,3) by (auto simp: d_def MAX_BUFF_SZ_def)
  have len: "length (c_buffer c) = 532"
    using assms(4) by (simp add: MAX_DGRAM_SZ_def MAX_BUFF_SZ_def sizeof_PDU_def)
  have l0: "length h0 = 532"
    unfolding h0_def by (simp add: length_memcpy_at length_bytes_of_int len)
  have l1: "length h1 = 532"
    unfolding h1_def by (simp add: length_memcpy_at length_bytes_of_int l0)
  have l2: "length header = 532"
    unfolding header_def by (simp add: length_memcpy_at length_bytes_of_int l1)
  have pl: "length (take (nat d) sbuff) = nat d"
    using d by simp
  have l3: "length buf = 532"
    unfolding buf_def using d by (simp add: length_memcpy_at l2 pl sizeof_PDU_def)
  have lf: "length frame = nat d + 20"
    unfolding frame_def using d by (simp add: l3 sizeof_PDU_def nat_add_distrib)
  have hd20: "take 20 frame = take 20 header"
    unfolding frame_def buf_def using d
    by (simp add: memcpy_at_def sizeof_PDU_def l2 nat_add_distrib)
  have f_m: "take 4 (drop 4 header) = bytes_of_int m"
  proof -
    have "take 4 (drop 4 header) = take 4 (drop 4 h1)"
      unfolding header_def by (rule read_before_memcpy_at) (simp_all add: l1)
    also have "\<dots> = bytes_of_int m"
      unfolding h1_def using read_memcpy_at [of 4 h0 "bytes_of_int m"]
      by (simp add: l0 length_bytes_of_int)
    finally show ?thesis .
  qed
  have f_s: "take 4 (drop 8 header) = bytes_of_int (seqNum c)"
  proof -
    have "take 4 (drop 8 header) = take 4 (drop 8 h1)"
      unfolding header_def by (rule read_before_memcpy_at) (simp_all add: l1)
    also have "\<dots> = take 4 (drop 8 h0)"
      unfolding h1_def by (rule read_after_memcpy_at) (simp_all add: l0 length_bytes_of_int)
    also have "\<dots> = bytes_of_int (seqNum c)"
      unfolding h0_def using read_memcpy_at [of 8 "c_buffer c" "bytes_of_int (seqNum c)"]
      by (simp add: len length_bytes_of_int)
    finally show ?thesis .
  qed
  have f_d: "take 4 (drop 12 header) = bytes_of_int (word_of_int d)"
    unfolding header_def using read_memcpy_at [of 12 h1 "bytes_of_int (word_of_int d)"]
    by (simp add: l1 length_bytes_of_int)
  have sub: "take 4 (drop k frame) = take 4 (drop k header)" if "k + 4 \<le> 20" for k
  proof -
    have "take 4 (drop k frame) = take 4 (drop k (take 20 frame))"
      using that by (simp add: drop_take min_def)
    also have "\<dots> = take 4 (drop k header)"
      unfolding hd20 using that by (simp add: drop_take min_def)
    finally show ?thesis .
  qed
  have p_m: "mtype (PDU_of_bytes frame) = m"
    by (simp add: PDU_of_bytes_def sub f_m int_of_bytes_of_int)
  have p_s: "seqnum (PDU_of_bytes frame) = seqNum c"
    by (simp add: PDU_of_bytes_def sub f_s int_of_bytes_of_int)
  have p_d: "sint (dgram_sz (PDU_of_bytes frame)) = d"
    using d by (simp add: PDU_of_bytes_def sub f_d int_of_bytes_of_int sint_small)
  have pay: "drop sizeof_PDU frame = take (nat d) sbuff"
    unfolding frame_def buf_def using d
    by (simp add: memcpy_at_def sizeof_PDU_def l2 nat_add_distrib)
  define r where "r = the (sendDgram c sbuff n tx rx)"
  have run: "sendDgram c sbuff n tx rx = Some r \<and>
      s_events r = [Sendto (addr (outSockAddr c)) frame] \<and>
      s_ret r = int_of_size_t
        (size_t_of_int (int_of_size_t (tx (addr (outSockAddr c)) frame)) - int sizeof_PDU)"
    unfolding r_def using assms(1) d(1,3)
    by (simp add: sendDgram_def sendRaw_def Let_def d_def [symmetric] m_def [symmetric]
        h0_def [symmetric] h1_def [symmetric] header_def [symmetric] buf_def [symmetric]
        frame_def [symmetric] split: prod.splits)
  have rv: "s_ret r = d" if "tx (addr (outSockAddr c)) frame = int (length frame)"
  proof -
    have t: "tx (addr (outSockAddr c)) frame = d + 20"
      using that d by (simp add: lf)
    have "int_of_size_t (d + 20) = d + 20"
      using d by (intro int_of_size_t_small) simp_all
    moreover have "size_t_of_int (d + 20) = d + 20"
      using d by (intro size_t_of_int_small) simp_all
    moreover have "int_of_size_t d = d"
      using d by (intro int_of_size_t_small) simp_all
    ultimately show ?thesis
      using run by (simp add: t sizeof_PDU_def)
  qed
  have mm: "m = (if n \<le> MAX_BUFF_SZ then SND else SENDFRAGMENT)"
    by (auto simp: m_def)
  show ?thesis
    using run p_m p_s p_d pay rv unfolding mm d(4) by blast
qed

theorem sendDgram_frame_witness:
  "isAddrInit (outSockAddr example_conn) \<and> (0::int) \<le> 5 \<and>
   nat 5 \<le> length (bytes_of_string ''hello'') \<and>
   length (c_buffer example_conn) = nat MAX_DGRAM_SZ \<and>
   (\<exists>r. sendDgram example_conn (bytes_of_string ''hello'') 5 all_sent Recvfrom_error = Some r \<and>
        s_ret r = 5)"
proof -
  have h: "isAddrInit (outSockAddr example_conn)" "(0::int) \<le> 5"
    "nat 5 \<le> length (bytes_of_string ''hello'')"
    "length (c_buffer example_conn) = nat MAX_DGRAM_SZ"
    by (simp_all add: example_conn_def bytes_of_string_def MAX_DGRAM_SZ_def MAX_BUFF_SZ_def
        sizeof_PDU_def)
  show ?thesis
    using h sendDgram_frame [OF h, of all_sent Recvfrom_error]
    by (auto simp: all_sent_def MAX_BUFF_SZ_def)
qed

subsection \<open>Receiving: recvDgram and listen\<close>

lemma recvRaw_datagram:
  "isAddrInit (inSockAddr c) \<Longrightarrow>
   recvRaw c buff (Datagram d src) =
     (c\<lparr>outSockAddr := \<lparr>len = 16, isAddrInit = True, addr = src\<rparr>\<rparr>,
      take (min (length d) (length buff)) d @ drop (min (length d) (length buff)) buff,
      int (min (length d) (length buff)))"
  by (simp add: recvRaw_def Let_def)

lemma validate_received:
  "n \<le> 532 \<Longrightarrow>
   validate (int n) inPdu cap =
     (if sint (dgram_sz inPdu) > cap then BUFF_UNDERSIZED
      else if n < sizeof_PDU then ERROR_BAD_DGRAM else NO_ERROR)"
  by (simp add: validate_def Let_def sizeof_PDU_def size_t_of_int_def)

lemma sendRaw_init:
  "isAddrInit (outSockAddr c) \<Longrightarrow>
   sendRaw c frame tx =
     ([Sendto (addr (outSockAddr c)) frame], int_of_size_t (tx (addr (outSockAddr c)) frame))"
  by (simp add: sendRaw_def)

lemma responses_simps [simp]:
  "responses [] = []"
  "responses (Sendto dest frame # evs) = PDU_of_bytes frame # responses evs"
  "responses (Close_socket fd # evs) = responses evs"
  "responses (Channel_close this # evs) = responses evs"
  "responses (Channel_send this msg # evs) = responses evs"
  "responses (evs @ evs') = responses evs @ responses evs'"
  by (simp_all add: responses_def)

lemma PDU_of_bytes_of_PDU' [simp]: "PDU_of_bytes (bytes_of_PDU p) = p"
  using PDU_of_bytes_of_PDU [of p "[]"] by simp

lemma recvDgram_switch_events:
  assumes "isAddrInit (outSockAddr c)"
  shows "\<not> list_ex is_channel_event (events (recvDgram_switch c buff ev inPdu errCode bytesIn tx)) =
           (\<not> list_ex is_channel_event ev)"
    and "map mtype (responses (events (recvDgram_switch c buff ev inPdu errCode bytesIn tx))) =
           map mtype (responses ev) @
           (if mtype inPdu = SND then [SNDACK] else if mtype inPdu = CLOSE then [CLOSEACK] else [])"
    and "conn (recvDgram_switch c buff ev inPdu errCode bytesIn tx) = c"
    and "take (length ev) (events (recvDgram_switch c buff ev inPdu errCode bytesIn tx)) = ev"
    and "buff_out (recvDgram_switch c buff ev inPdu errCode bytesIn tx) = buff"
  using assms
  by (auto simp: recvDgram_switch_def sendRaw_init Let_def response_def split: if_splits)

lemma recvDgram_received:
  assumes init: "isAddrInit (inSockAddr c)"
    and lo: "sizeof_PDU \<le> length buff" and hi: "int (length buff) \<le> MAX_DGRAM_SZ"
  shows "\<exists>r. recvDgram c buff (Datagram d src) tx = Some r \<and> conn r = after_recv c d buff src \<and>
           buff_out r = filled d buff \<and>
           \<not> list_ex is_channel_event (events r) \<and>
           (classify d buff \<noteq> NO_ERROR \<longrightarrow>
              take 1 (events r) =
                [Sendto src (bytes_of_PDU (response (seqNum (after_recv c d buff src))
                   (classify d buff) ERROR))]) \<and>
           (classify d buff = NO_ERROR \<longrightarrow>
              map mtype (responses (events r)) =
                (if mtype (PDU_of_bytes (filled d buff)) AND FRAGMENT = FRAGMENT
                 then [SENDFRAGMENTACK]
                 else if mtype (PDU_of_bytes (filled d buff)) = SND then [SNDACK]
                 else if mtype (PDU_of_bytes (filled d buff)) = CLOSE then [CLOSEACK]
                 else []))"
proof -
  define inPdu where "inPdu = PDU_of_bytes (filled d buff)"
  define errCode where "errCode = classify d buff"
  define c2 where "c2 = after_recv c d buff src"
  have n: "min (length d) (length buff) \<le> 532"
    using hi by (simp add: MAX_DGRAM_SZ_def MAX_BUFF_SZ_def sizeof_PDU_def)
  have val: "validate (int (min (length d) (length buff))) inPdu (int (length buff)) = errCode"
    unfolding errCode_def classify_def inPdu_def using validate_received [OF n] by simp
  have out: "isAddrInit (outSockAddr c2)" "addr (outSockAddr c2) = src"
    by (simp_all add: c2_def after_recv_def)
  have c2: "c\<lparr>outSockAddr := \<lparr>len = 16, isAddrInit = True, addr = src\<rparr>\<rparr>
      \<lparr>seqNum := advance errCode inPdu
         (seqNum (c\<lparr>outSockAddr := \<lparr>len = 16, isAddrInit = True, addr = src\<rparr>\<rparr>))\<rparr> = c2"
    by (simp add: c2_def after_recv_def errCode_def inPdu_def)
  have unfold: "recvDgram c buff (Datagram d src) tx =
      (if errCode \<noteq> NO_ERROR then
         (let (ev, actSndSz) = sendRaw c2 (bytes_of_PDU (response (seqNum c2) errCode ERROR)) tx in
          if size_t_of_int actSndSz \<noteq> int sizeof_PDU
          then Some \<lparr>conn = c2, buff_out = filled d buff, events = ev, ret = ERROR_PROTOCOL\<rparr>
          else Some (recvDgram_switch c2 (filled d buff) ev inPdu errCode
                 (int (min (length d) (length buff))) tx))
       else if mtype inPdu AND FRAGMENT = FRAGMENT then
         (let (ev, actSndSz) =
                sendRaw c2 (bytes_of_PDU (response (seqNum c2) errCode SENDFRAGMENTACK)) tx in
          if size_t_of_int actSndSz \<noteq> int sizeof_PDU
          then Some \<lparr>conn = c2, buff_out = filled d buff, events = ev, ret = ERROR_PROTOCOL\<rparr>
          else Some \<lparr>conn = c2, buff_out = filled d buff, events = ev,
                 ret = int (min (length d) (length buff))\<rparr>)
       else Some (recvDgram_switch c2 (filled d buff) [] inPdu errCode
              (int (min (length d) (length buff))) tx))"
    using lo hi
    by (simp add: recvDgram_def recvRaw_datagram [OF init] Let_def validate_received [OF n]
        c2_def after_recv_def errCode_def inPdu_def classify_def filled_def
        cong: if_cong)
  have ?thesis if "errCode \<noteq> NO_ERROR"
    unfolding unfold c2_def [symmetric] errCode_def [symmetric] inPdu_def [symmetric]
    using that recvDgram_switch_events(1,3,5) [OF out(1)]
      recvDgram_switch_events(4) [OF out(1),
        where ev = "[Sendto src (bytes_of_PDU (response (seqNum c2) errCode ERROR))]"]
    by (auto simp: sendRaw_init [OF out(1)] out(2) Let_def)
  moreover have ?thesis if "errCode = NO_ERROR"
    unfolding unfold c2_def [symmetric] errCode_def [symmetric] inPdu_def [symmetric]
    using that recvDgram_switch_events(1,2,3,5) [OF out(1)]
    by (auto simp: sendRaw_init [OF out(1)] out(2) Let_def response_def)
  ultimately show ?thesis by blast
qed



lemma before_dispatch_Sendto:
  "responses_before_dispatch (Sendto dest frame # es) = responses_before_dispatch es"
  by simp

lemma pushToChannel_events:
  "list_all is_channel_event (fst (pushToChannel t this buff sz w))"
  by (simp add: pushToChannel_def Let_def)



lemma listen_push_dpc: "dpc (srv (listen_push ev a buff sz s)) = dpc s"
  by (auto simp: listen_push_def split: option.splits prod.splits outcome.splits)



lemma length_zeroed: "length zeroed = 532"
  by (simp add: zeroed_def MAX_DGRAM_SZ_def MAX_BUFF_SZ_def sizeof_PDU_def)

lemma listen_datagram:
  assumes "isAddrInit (inSockAddr (dpc s))"
  shows "listen uninit (Datagram d src) tx s =
     (if min (length d) 532 = 20
      then listen_connect uninit tx (inet_ntoa (sin_addr src)) (listening s d src)
      else listen_frame tx (inet_ntoa (sin_addr src)) (int (min (length d) 532))
             (listening s d src))"
proof -
  have "size_t_of_int (int (min (length d) 532)) = int (min (length d) 532)"
    by (simp add: size_t_of_int_def)
  then show ?thesis
    using assms
    by (simp add: listen_def recvRaw_def Let_def listening_def filled_def zeroed_def
        MAX_DGRAM_SZ_def MAX_BUFF_SZ_def sizeof_PDU_def cong: if_cong)
qed

lemma listening_simps [simp]:
  "isAddrInit (outSockAddr (dpc (listening s d src)))"
  "addr (outSockAddr (dpc (listening s d src))) = src"
  "c_buffer (dpc (listening s d src)) = filled d zeroed"
  "seqNums (dpc (listening s d src)) = seqNums (dpc s)"
  "ftpWriters (listening s d src) = ftpWriters s"
  "heap (listening s d src) = heap s"
  by (simp_all add: listening_def)


lemma classify_zeroed:
  "validate (int (min (length d) 532)) (PDU_of_bytes (filled d zeroed)) MAX_DGRAM_SZ =
   classify d zeroed"
  using validate_received [of "min (length d) 532" "PDU_of_bytes (filled d zeroed)" MAX_DGRAM_SZ]
  by (simp add: classify_def length_zeroed MAX_DGRAM_SZ_def MAX_BUFF_SZ_def sizeof_PDU_def)







lemma listen_frame_seqNums:
  "seqNums (dpc (srv (listen_frame tx a rcvSz s))) =
     (seqNums (dpc s))(a \<mapsto>
        advance (validate rcvSz (PDU_of_bytes (c_buffer (dpc s))) MAX_DGRAM_SZ)
          (PDU_of_bytes (c_buffer (dpc s))) (seq_at (seqNums (dpc s)) a))"
  by (simp add: listen_frame_def Let_def listen_push_dpc split: option.splits prod.splits)

lemma listen_counter:
  assumes "isAddrInit (inSockAddr (dpc s))" "min (length d) 532 \<noteq> 20"
  shows "seqNums (dpc (srv (listen uninit (Datagram d src) tx s))) =
     (seqNums (dpc s))(inet_ntoa (sin_addr src) \<mapsto>
        seq_at (seqNums (dpc s)) (inet_ntoa (sin_addr src)) +
          (if classify d zeroed \<noteq> NO_ERROR then 1 else seq_step (PDU_of_bytes (filled d zeroed))))"
  unfolding listen_datagram [OF assms(1)]
  using assms(2)
  by (simp add: listen_frame_seqNums classify_zeroed advance_def seq_step_def)

section \<open>Claims on the receiver\<close>

subsection \<open>C1: one response, before the dispatch\<close>





subsection \<open>C7: validation errors\<close>

text \<open>
  C7, as the claim states it, fails: the two tests of the validation follow one another
  without an \<^verbatim>\<open>else\<close>, so the second overrides the first. A datagram of 16 bytes,
  fewer than a header, whose bytes 12 to 15 declare a \<open>dgram_sz\<close> of 1000 is answered
  with the error code \<open>BUFF_UNDERSIZED\<close>, not \<open>ERROR_BAD_DGRAM\<close>.
\<close>

theorem short_frame_undersized:
  "length short_frame = 16 \<and>
   map_option (map err_num \<circ> responses \<circ> events)
     (recvDgram example_conn zeroed (Datagram short_frame peer) all_sent) =
   Some [word_of_int BUFF_UNDERSIZED]"
  by code_simp

lemma sint_codes:
  "sint (word_of_int BUFF_UNDERSIZED :: c_int) = BUFF_UNDERSIZED"
  "sint (word_of_int ERROR_BAD_DGRAM :: c_int) = ERROR_BAD_DGRAM"
  by (simp_all add: BUFF_UNDERSIZED_def ERROR_BAD_DGRAM_def)

text \<open>
  C7, amended. For every call of \<^verbatim>\<open>recvDgram(buf, cap)\<close> that receives a datagram, with
  a buffer of at least a header and at most \<open>MAX_DGRAM_SZ\<close> bytes: if the \<open>dgram_sz\<close>
  read from the first 20 bytes of the buffer exceeds \<open>cap\<close>, the error is
  \<open>BUFF_UNDERSIZED\<close>, also when fewer bytes than a header were received; otherwise, if
  fewer bytes than a header were received, it is \<open>ERROR_BAD_DGRAM\<close>. In either case the
  first frame transmitted goes to the sender and is a PDU with \<open>mtype = ERROR\<close>,
  \<open>err_num\<close> the error code, \<open>dgram_sz = 0\<close> and the counter advanced by one; and
  \<^verbatim>\<open>recvDgram\<close> passes nothing to a writer's channel, so no file comes of the frame.
\<close>

theorem recvDgram_validation:
  assumes "isAddrInit (inSockAddr c)" and "sizeof_PDU \<le> length buff"
    and "int (length buff) \<le> MAX_DGRAM_SZ"
  shows "\<exists>r. recvDgram c buff (Datagram d src) tx = Some r \<and>
     (let inPdu = PDU_of_bytes (filled d buff);
          errCode = (if sint (dgram_sz inPdu) > int (length buff) then BUFF_UNDERSIZED
                     else if min (length d) (length buff) < sizeof_PDU then ERROR_BAD_DGRAM
                     else NO_ERROR)
      in \<not> list_ex is_channel_event (events r) \<and>
         (errCode \<noteq> NO_ERROR \<longrightarrow>
            take 1 (events r) =
              [Sendto src (bytes_of_PDU
                 \<lparr>proto_ver = 1, mtype = ERROR, seqnum = seqNum c + 1, dgram_sz = 0,
                  err_num = word_of_int errCode\<rparr>)] \<and>
            mtype (hd (responses (events r))) = ERROR \<and>
            sint (err_num (hd (responses (events r)))) = errCode))"
proof -
  obtain r where r: "recvDgram c buff (Datagram d src) tx = Some r"
    "\<not> list_ex is_channel_event (events r)"
    "classify d buff \<noteq> NO_ERROR \<longrightarrow>
       take 1 (events r) =
         [Sendto src (bytes_of_PDU (response (seqNum (after_recv c d buff src))
            (classify d buff) ERROR))]"
    using recvDgram_received [OF assms, of d src tx] by blast
  have sq: "seqNum (after_recv c d buff src) = seqNum c + 1" if "classify d buff \<noteq> NO_ERROR"
    using that by (simp add: after_recv_def advance_def)
  have hd1: "mtype (hd (responses evs)) = mtype p \<and> err_num (hd (responses evs)) = err_num p"
    if tk: "take 1 evs = [Sendto src (bytes_of_PDU p)]" for evs p
  proof -
    obtain rest where "evs = Sendto src (bytes_of_PDU p) # rest"
      using tk by (cases evs) auto
    then show ?thesis by simp
  qed
  have cl: "sint (word_of_int (classify d buff) :: c_int) = classify d buff"
    by (simp add: classify_def sint_codes NO_ERROR_def)
  show ?thesis
    using r sq hd1 [of "events r"] cl
    by (auto simp: Let_def classify_def [symmetric] response_def)
qed

theorem recvDgram_validation_witness:
  "isAddrInit (inSockAddr example_conn) \<and> sizeof_PDU \<le> length zeroed \<and>
   int (length zeroed) \<le> MAX_DGRAM_SZ \<and>
   (\<exists>r. recvDgram example_conn zeroed (Datagram four_bytes peer) all_sent = Some r \<and>
        take 1 (events r) =
          [Sendto peer (bytes_of_PDU
             \<lparr>proto_ver = 1, mtype = ERROR, seqnum = 2, dgram_sz = 0,
              err_num = word_of_int ERROR_BAD_DGRAM\<rparr>)])"
proof -
  have h: "isAddrInit (inSockAddr example_conn)" "sizeof_PDU \<le> length zeroed"
    "int (length zeroed) \<le> MAX_DGRAM_SZ"
    by code_simp+
  have e: "(if sint (dgram_sz (PDU_of_bytes (filled four_bytes zeroed))) > int (length zeroed)
             then BUFF_UNDERSIZED
             else if min (length four_bytes) (length zeroed) < sizeof_PDU then ERROR_BAD_DGRAM
             else NO_ERROR) = ERROR_BAD_DGRAM"
    by code_simp
  have n: "seqNum example_conn + 1 = 2" "ERROR_BAD_DGRAM \<noteq> NO_ERROR"
    by code_simp+
  obtain r where r: "recvDgram example_conn zeroed (Datagram four_bytes peer) all_sent = Some r"
    and t: "take 1 (events r) =
          [Sendto peer (bytes_of_PDU
             \<lparr>proto_ver = 1, mtype = ERROR, seqnum = 2, dgram_sz = 0,
              err_num = word_of_int ERROR_BAD_DGRAM\<rparr>)]"
    using recvDgram_validation [OF h, of four_bytes peer all_sent]
    unfolding Let_def e n(1) using n(2) by blast
  show ?thesis
    using h r t by blast
qed

subsection \<open>C3: the sequence counter\<close>






subsection \<open>C10: the keys of the dispatcher\<close>

lemma filter_sendRaw: "filter is_channel_event (fst (sendRaw c frame tx)) = []"
  by (simp add: sendRaw_def)

lemma listen_push_view:
  assumes "filter is_channel_event ev' = filter is_channel_event ev"
  shows "peer_view (listen_push ev' a buff sz (with_out out s)) =
         peer_view (listen_push ev a buff sz s)"
  using assms
  by (auto simp: peer_view_def listen_push_def with_out_def writer_at_def
      split: option.splits prod.splits outcome.splits)

lemma listen_connect_view:
  "peer_view (listen_connect uninit tx' a (with_out out s)) =
   peer_view (listen_connect uninit tx a s)"
  by (simp add: peer_view_def listen_connect_def with_out_def Let_def filter_sendRaw
      case_prod_beta)

lemma with_out_simps [simp]:
  "c_buffer (dpc (with_out out s)) = c_buffer (dpc s)"
  "seqNums (dpc (with_out out s)) = seqNums (dpc s)"
  "heap (with_out out s) = heap s"
  "ftpWriters (with_out out s) = ftpWriters s"
  by (simp_all add: with_out_def)

lemma with_out_seqNums:
  "(with_out out s)\<lparr>dpc := (dpc (with_out out s))\<lparr>seqNums := m\<rparr>\<rparr> =
   with_out out (s\<lparr>dpc := (dpc s)\<lparr>seqNums := m\<rparr>\<rparr>)"
  by (simp add: with_out_def)

lemma with_out_heap:
  "(with_out out s)\<lparr>heap := h\<rparr> = with_out out (s\<lparr>heap := h\<rparr>)"
  by (simp add: with_out_def)

lemma writer_at_with_out [simp]: "writer_at (with_out out s) a = writer_at s a"
  by (simp add: writer_at_def split: option.splits)

lemma listen_frame_view:
  "peer_view (listen_frame tx' a rcvSz (with_out out s)) =
   peer_view (listen_frame tx a rcvSz s)"
proof -
  let ?inPdu = "PDU_of_bytes (c_buffer (dpc s))"
  let ?errCode = "validate rcvSz ?inPdu MAX_DGRAM_SZ"
  let ?n = "advance ?errCode ?inPdu (seq_at (seqNums (dpc s)) a)"
  let ?s1 = "s\<lparr>dpc := (dpc s)\<lparr>seqNums := (seqNums (dpc s))(a \<mapsto> ?n)\<rparr>\<rparr>"
  note unf = listen_frame_def Let_def with_out_simps with_out_seqNums
  consider (err) "?errCode \<noteq> NO_ERROR"
    | (frag) "?errCode = NO_ERROR" "mtype ?inPdu AND FRAGMENT = FRAGMENT"
    | (snd) "?errCode = NO_ERROR" "mtype ?inPdu AND FRAGMENT \<noteq> FRAGMENT" "mtype ?inPdu = SND"
    | (close) "?errCode = NO_ERROR" "mtype ?inPdu AND FRAGMENT \<noteq> FRAGMENT"
        "mtype ?inPdu \<noteq> SND" "mtype ?inPdu = CLOSE"
    | (other) "?errCode = NO_ERROR" "mtype ?inPdu AND FRAGMENT \<noteq> FRAGMENT"
        "mtype ?inPdu \<noteq> SND" "mtype ?inPdu \<noteq> CLOSE"
    by blast
  then show ?thesis
  proof cases
    case err
    then show ?thesis
      by (simp add: unf) (rule listen_push_view, simp add: filter_sendRaw)
  next
    case frag
    then show ?thesis
      by (simp add: unf) (rule listen_push_view, simp add: filter_sendRaw)
  next
    case snd
    then show ?thesis
      by (simp add: unf) (rule listen_push_view, simp add: filter_sendRaw)
  next
    case close
    show ?thesis
    proof (cases "writer_at ?s1 a")
      case None
      then show ?thesis
        using close
        by (simp add: unf peer_view_def filter_sendRaw) (simp add: with_out_def)
    next
      case (Some tw)
      obtain this w where tw: "tw = (this, w)" by (cases tw)
      show ?thesis
        using close Some tw
        by (simp add: unf with_out_heap) (rule listen_push_view, simp add: filter_sendRaw)
    qed
  next
    case other
    then show ?thesis
      by (simp add: unf) (rule listen_push_view, simp)
  qed
qed

lemma listening_with_out:
  "listening (with_out out s) d src' =
   with_out \<lparr>len = 16, isAddrInit = True, addr = src'\<rparr> (listening s d src)"
  by (simp add: listening_def with_out_def)

lemma listen_view:
  assumes "sin_addr src' = sin_addr src" and "isAddrInit (inSockAddr (dpc s))"
  shows "peer_view (listen uninit (Datagram d src') tx' (with_out out s)) =
         peer_view (listen uninit (Datagram d src) tx s)"
proof -
  have init': "isAddrInit (inSockAddr (dpc (with_out out s)))"
    using assms(2) by (simp add: with_out_def)
  show ?thesis
    unfolding listen_datagram [OF init'] listen_datagram [OF assms(2)] assms(1)
    by (simp add: listening_with_out [where src = src] listen_connect_view listen_frame_view)
qed

lemma listen_push_ftpWriters:
  "ftpWriters (srv (listen_push ev a buff sz s)) = ftpWriters s"
  by (auto simp: listen_push_def split: option.splits prod.splits outcome.splits)

lemma listen_frame_ftpWriters:
  "ftpWriters (srv (listen_frame tx a rcvSz s)) = ftpWriters s"
  by (simp add: listen_frame_def Let_def listen_push_ftpWriters split: option.splits prod.splits)

lemma listen_connect_keys:
  "seqNums (dpc (srv (listen_connect uninit tx a s))) = (seqNums (dpc s))(a \<mapsto> 1)"
  "ftpWriters (srv (listen_connect uninit tx a s)) = (ftpWriters s)(a \<mapsto> next_new s)"
  by (simp_all add: listen_connect_def Let_def case_prod_beta)

lemma listen_connect_entry:
  "heap (srv (listen_connect uninit tx a s)) = (heap s)(next_new s \<mapsto> FTPFileWriter_new a)"
  "filter is_channel_event (trace (listen_connect uninit tx a s)) = []"
  "inSockAddr (dpc (srv (listen_connect uninit tx a s))) = inSockAddr (dpc s)"
  by (simp_all add: listen_connect_def Let_def case_prod_beta filter_sendRaw)

lemma payload_short:
  assumes "n < 20"
  shows "int_of_size_t (size_t_of_int (int n) - int sizeof_PDU) < 0"
proof -
  have "size_t_of_int (int n) - int sizeof_PDU = int n - 20"
    using assms by (simp add: size_t_of_int_def sizeof_PDU_def)
  moreover have "int_of_size_t (int n - 20) = int n - 20"
    using assms by (intro int_of_size_t_small) simp_all
  ultimately show ?thesis
    using assms by simp
qed

lemma payload_long:
  assumes "20 < n" "n \<le> 532"
  shows "int_of_size_t (size_t_of_int (int n) - int sizeof_PDU) = int (n - 20)"
proof -
  have "size_t_of_int (int n) - int sizeof_PDU = int n - 20"
    using assms by (simp add: size_t_of_int_def sizeof_PDU_def)
  moreover have "int_of_size_t (int n - 20) = int n - 20"
    using assms by (intro int_of_size_t_small) simp_all
  ultimately show ?thesis
    using assms by simp
qed

lemma payload_received:
  assumes "20 < length d"
  shows "take (min (length d) 532 - 20) (drop sizeof_PDU (filled d zeroed)) = payload_of d"
proof -
  have "take (min (length d) 532 - 20) (drop 20 (filled d zeroed)) =
        drop 20 (take (min (length d) 532) (filled d zeroed))"
    using assms by (simp add: drop_take)
  also have "take (min (length d) 532) (filled d zeroed) = take 532 d"
    by (simp add: filled_def length_zeroed min_def)
  finally show ?thesis
    by (simp add: payload_of_def sizeof_PDU_def MAX_DGRAM_SZ_def MAX_BUFF_SZ_def)
qed


lemma listen_push_none:
  "writer_at s a = None \<Longrightarrow>
   listen_push ev a buff sz s = \<lparr>srv = s, trace = ev, how = Undefined_behaviour\<rparr>"
  by (simp add: listen_push_def)

lemma listen_push_entry:
  assumes "writer_at s a = Some (this, w)"
  shows "\<exists>w'. heap (srv (listen_push ev a buff sz s)) = (heap s)(this \<mapsto> w') \<and>
           address w' = address w \<and>
           buffer (stream w') =
             (if 0 \<le> sz \<and> open (stream w) \<and> has_room (stream w)
              then buffer (stream w) @ [take (nat sz) buff] else buffer (stream w))"
    and "trace (listen_push ev a buff sz s) =
           ev @ (if 0 \<le> sz then [Channel_send this (take (nat sz) buff)] else [])"
  using assms
  by (auto simp: listen_push_def pushToChannel_def send_def send_wait_def Let_def)

lemma closing_iff:
  "(errCode = NO_ERROR \<and> m AND FRAGMENT \<noteq> FRAGMENT \<and> m \<noteq> SND \<and> m = CLOSE) =
   (errCode = NO_ERROR \<and> m = CLOSE)"
  by (auto simp: CLOSE_def FRAGMENT_def SND_def)

lemma writer_at_dpc: "writer_at (s\<lparr>dpc := c\<rparr>) a = writer_at s a"
  by (simp add: writer_at_def split: option.splits)

lemma listen_frame_none:
  assumes "writer_at s a = None"
  shows "how (listen_frame tx a rcvSz s) = Undefined_behaviour"
    and "heap (srv (listen_frame tx a rcvSz s)) = heap s"
    and "filter is_channel_event (trace (listen_frame tx a rcvSz s)) = []"
proof -
  have w: "writer_at (s\<lparr>dpc := c\<rparr>) a = None" for c
    using assms by (simp add: writer_at_dpc)
  show "how (listen_frame tx a rcvSz s) = Undefined_behaviour"
    and "heap (srv (listen_frame tx a rcvSz s)) = heap s"
    and "filter is_channel_event (trace (listen_frame tx a rcvSz s)) = []"
    by (simp_all add: listen_frame_def Let_def w listen_push_none filter_sendRaw)
qed

lemma listen_frame_entry:
  fixes s :: FTPServer and rcvSz :: int
  assumes "writer_at s a = Some (this, w)"
  defines "closes \<equiv> validate rcvSz (PDU_of_bytes (c_buffer (dpc s))) MAX_DGRAM_SZ = NO_ERROR \<and>
                     mtype (PDU_of_bytes (c_buffer (dpc s))) = CLOSE"
    and "sz \<equiv> int_of_size_t (size_t_of_int rcvSz - int sizeof_PDU)"
    and "msg \<equiv> take (nat (int_of_size_t (size_t_of_int rcvSz - int sizeof_PDU)))
                  (drop sizeof_PDU (c_buffer (dpc s)))"
  shows "\<exists>w'. heap (srv (listen_frame tx a rcvSz s)) = (heap s)(this \<mapsto> w') \<and>
           address w' = address w \<and>
           buffer (stream w') =
             (if 0 \<le> sz \<and> \<not> closes \<and> open (stream w) \<and> has_room (stream w)
              then buffer (stream w) @ [msg] else buffer (stream w))"
    and "filter is_channel_event (trace (listen_frame tx a rcvSz s)) =
           (if closes then [Channel_close this] else []) @
           (if 0 \<le> sz then [Channel_send this msg] else [])"
proof -
  let ?inPdu = "PDU_of_bytes (c_buffer (dpc s))"
  let ?errCode = "validate rcvSz ?inPdu MAX_DGRAM_SZ"
  let ?n = "advance ?errCode ?inPdu (seq_at (seqNums (dpc s)) a)"
  let ?s1 = "s\<lparr>dpc := (dpc s)\<lparr>seqNums := (seqNums (dpc s))(a \<mapsto> ?n)\<rparr>\<rparr>"
  let ?w = "w\<lparr>stream := close (stream w)\<rparr>"
  let ?s2 = "?s1\<lparr>heap := (heap ?s1)(this \<mapsto> ?w)\<rparr>"
  have w1: "writer_at ?s1 a = Some (this, w)"
    using assms(1) by (simp add: writer_at_dpc)
  have w2: "writer_at ?s2 a = Some (this, ?w)"
    using assms(1) by (auto simp: writer_at_def split: option.splits)
  note p1 = listen_push_entry [OF w1, where buff = "drop sizeof_PDU (c_buffer (dpc s))" and sz = sz]
  note p2 = listen_push_entry [OF w2, where buff = "drop sizeof_PDU (c_buffer (dpc s))" and sz = sz]
  have m: "CLOSE AND FRAGMENT \<noteq> FRAGMENT" "CLOSE \<noteq> SND"
    by (simp_all add: CLOSE_def FRAGMENT_def SND_def)
  consider (close) "closes" | (err) "?errCode \<noteq> NO_ERROR"
    | (frag) "?errCode = NO_ERROR" "mtype ?inPdu AND FRAGMENT = FRAGMENT"
    | (snd) "?errCode = NO_ERROR" "mtype ?inPdu AND FRAGMENT \<noteq> FRAGMENT" "mtype ?inPdu = SND"
    | (other) "?errCode = NO_ERROR" "mtype ?inPdu AND FRAGMENT \<noteq> FRAGMENT"
        "mtype ?inPdu \<noteq> SND" "mtype ?inPdu \<noteq> CLOSE"
    unfolding closes_def by blast
  then have frame: "\<exists>ev. filter is_channel_event ev = [] \<and>
      listen_frame tx a rcvSz s =
        (if closes
         then listen_push (ev @ [Channel_close this]) a (drop sizeof_PDU (c_buffer (dpc s))) sz ?s2
         else listen_push ev a (drop sizeof_PDU (c_buffer (dpc s))) sz ?s1)"
  proof cases
    case close
    then show ?thesis
      using w1 m
      by (intro exI [of _ "fst (sendRaw (dpc ?s1) (bytes_of_PDU (response ?n ?errCode CLOSEACK)) tx)"])
         (simp add: listen_frame_def Let_def sz_def closes_def filter_sendRaw)
  next
    case err
    then show ?thesis
      by (intro exI [of _ "fst (sendRaw (dpc ?s1) (bytes_of_PDU (response ?n ?errCode ERROR)) tx)"])
         (simp add: listen_frame_def Let_def sz_def closes_def filter_sendRaw)
  next
    case frag
    then show ?thesis
      using m
      by (intro exI [of _ "fst (sendRaw (dpc ?s1)
               (bytes_of_PDU (response ?n ?errCode SENDFRAGMENTACK)) tx)"])
         (auto simp: listen_frame_def Let_def sz_def closes_def filter_sendRaw)
  next
    case snd
    then show ?thesis
      using m
      by (intro exI [of _ "fst (sendRaw (dpc ?s1) (bytes_of_PDU (response ?n ?errCode SNDACK)) tx)"])
         (auto simp: listen_frame_def Let_def sz_def closes_def filter_sendRaw)
  next
    case other
    then show ?thesis
      by (intro exI [of _ "[]"]) (simp add: listen_frame_def Let_def sz_def closes_def)
  qed
  then obtain ev where ev: "filter is_channel_event ev = []"
    and frame: "listen_frame tx a rcvSz s =
        (if closes
         then listen_push (ev @ [Channel_close this]) a (drop sizeof_PDU (c_buffer (dpc s))) sz ?s2
         else listen_push ev a (drop sizeof_PDU (c_buffer (dpc s))) sz ?s1)"
    by blast
  show "\<exists>w'. heap (srv (listen_frame tx a rcvSz s)) = (heap s)(this \<mapsto> w') \<and>
           address w' = address w \<and>
           buffer (stream w') =
             (if 0 \<le> sz \<and> \<not> closes \<and> open (stream w) \<and> has_room (stream w)
              then buffer (stream w) @ [msg] else buffer (stream w))"
  proof (cases closes)
    case True
    obtain w' where "heap (srv (listen_push (ev @ [Channel_close this]) a
          (drop sizeof_PDU (c_buffer (dpc s))) sz ?s2)) = (heap ?s2)(this \<mapsto> w')"
      "address w' = address ?w"
      "buffer (stream w') =
         (if 0 \<le> sz \<and> open (stream ?w) \<and> has_room (stream ?w)
          then buffer (stream ?w) @ [take (nat sz) (drop sizeof_PDU (c_buffer (dpc s)))]
          else buffer (stream ?w))"
      using p2(1) by blast
    then show ?thesis
      using True by (intro exI [of _ w']) (simp add: frame close_def)
  next
    case False
    obtain w' where "heap (srv (listen_push ev a
          (drop sizeof_PDU (c_buffer (dpc s))) sz ?s1)) = (heap ?s1)(this \<mapsto> w')"
      "address w' = address w"
      "buffer (stream w') =
         (if 0 \<le> sz \<and> open (stream w) \<and> has_room (stream w)
          then buffer (stream w) @ [take (nat sz) (drop sizeof_PDU (c_buffer (dpc s)))]
          else buffer (stream w))"
      using p1(1) by blast
    then show ?thesis
      using False by (intro exI [of _ w']) (simp add: frame msg_def sz_def)
  qed
  show "filter is_channel_event (trace (listen_frame tx a rcvSz s)) =
           (if closes then [Channel_close this] else []) @
           (if 0 \<le> sz then [Channel_send this msg] else [])"
    using p1(2) [of ev] p2(2) [of "ev @ [Channel_close this]"]
    by (simp add: frame ev msg_def [folded sz_def])
qed


lemma writer_at_listening: "writer_at (listening s d src) a = writer_at s a"
  by (simp add: listening_def writer_at_dpc)

lemma listen_tables:
  assumes "isAddrInit (inSockAddr (dpc s))"
  shows "seqNums (dpc (srv (listen uninit (Datagram d src) tx s))) =
           (seqNums (dpc s))(inet_ntoa (sin_addr src) \<mapsto>
              (if length d = 20 then 1
               else seq_at (seqNums (dpc s)) (inet_ntoa (sin_addr src)) + counter_step d))"
    and "ftpWriters (srv (listen uninit (Datagram d src) tx s)) =
           (if length d = 20 then (ftpWriters s)(inet_ntoa (sin_addr src) \<mapsto> next_new s)
            else ftpWriters s)"
    and "inSockAddr (dpc (srv (listen uninit (Datagram d src) tx s))) = inSockAddr (dpc s)"
proof -
  have c: "(min (length d) 532 = 20) = (length d = 20)"
    by auto
  show "seqNums (dpc (srv (listen uninit (Datagram d src) tx s))) =
           (seqNums (dpc s))(inet_ntoa (sin_addr src) \<mapsto>
              (if length d = 20 then 1
               else seq_at (seqNums (dpc s)) (inet_ntoa (sin_addr src)) + counter_step d))"
    using listen_counter [OF assms, of d uninit src tx]
    by (cases "length d = 20")
       (simp_all add: listen_datagram [OF assms] c listen_connect_keys counter_step_def)
  show "ftpWriters (srv (listen uninit (Datagram d src) tx s)) =
           (if length d = 20 then (ftpWriters s)(inet_ntoa (sin_addr src) \<mapsto> next_new s)
            else ftpWriters s)"
    by (simp add: listen_datagram [OF assms] c listen_connect_keys listen_frame_ftpWriters
        listening_def)
  show "inSockAddr (dpc (srv (listen uninit (Datagram d src) tx s))) = inSockAddr (dpc s)"
    by (simp add: listen_datagram [OF assms] c listen_connect_entry listen_frame_def Let_def
        listen_push_dpc listening_def split: option.splits prod.splits)
qed

lemma listen_entry_made:
  assumes "isAddrInit (inSockAddr (dpc s))" "length d = 20"
  shows "heap (srv (listen uninit (Datagram d src) tx s)) =
           (heap s)(next_new s \<mapsto> FTPFileWriter_new (inet_ntoa (sin_addr src)))"
    and "filter is_channel_event (trace (listen uninit (Datagram d src) tx s)) = []"
    and "writer_at (srv (listen uninit (Datagram d src) tx s)) (inet_ntoa (sin_addr src)) =
           Some (next_new s, FTPFileWriter_new (inet_ntoa (sin_addr src)))"
proof -
  show h: "heap (srv (listen uninit (Datagram d src) tx s)) =
           (heap s)(next_new s \<mapsto> FTPFileWriter_new (inet_ntoa (sin_addr src)))"
    using assms(2) by (simp add: listen_datagram [OF assms(1)] listen_connect_entry listening_def)
  show "filter is_channel_event (trace (listen uninit (Datagram d src) tx s)) = []"
    using assms(2) by (simp add: listen_datagram [OF assms(1)] listen_connect_entry)
  show "writer_at (srv (listen uninit (Datagram d src) tx s)) (inet_ntoa (sin_addr src)) =
           Some (next_new s, FTPFileWriter_new (inet_ntoa (sin_addr src)))"
    using assms(2) by (simp add: writer_at_def h listen_tables(2) [OF assms(1)])
qed

lemma listen_entry_missing:
  assumes "isAddrInit (inSockAddr (dpc s))" "length d \<noteq> 20"
    and "writer_at s (inet_ntoa (sin_addr src)) = None"
  shows "how (listen uninit (Datagram d src) tx s) = Undefined_behaviour"
    and "heap (srv (listen uninit (Datagram d src) tx s)) = heap s"
    and "filter is_channel_event (trace (listen uninit (Datagram d src) tx s)) = []"
proof -
  have c: "min (length d) 532 \<noteq> 20"
    using assms(2) by auto
  have w: "writer_at (listening s d src) (inet_ntoa (sin_addr src)) = None"
    using assms(3) by (simp add: writer_at_listening)
  show "how (listen uninit (Datagram d src) tx s) = Undefined_behaviour"
    and "heap (srv (listen uninit (Datagram d src) tx s)) = heap s"
    and "filter is_channel_event (trace (listen uninit (Datagram d src) tx s)) = []"
    using c by (simp_all add: listen_datagram [OF assms(1)] listen_frame_none [OF w])
qed

lemma listen_entry_used:
  assumes "isAddrInit (inSockAddr (dpc s))" "length d \<noteq> 20"
    and "writer_at s (inet_ntoa (sin_addr src)) = Some (this, w)"
  shows "\<exists>w'. heap (srv (listen uninit (Datagram d src) tx s)) = (heap s)(this \<mapsto> w') \<and>
           address w' = address w \<and> buffer (stream w') = pushed d w"
    and "filter is_channel_event (trace (listen uninit (Datagram d src) tx s)) =
           channel_events this d"
proof -
  let ?n = "min (length d) 532"
  let ?sz = "int_of_size_t (size_t_of_int (int ?n) - int sizeof_PDU)"
  have c: "?n \<noteq> 20"
    using assms(2) by auto
  have w: "writer_at (listening s d src) (inet_ntoa (sin_addr src)) = Some (this, w)"
    using assms(3) by (simp add: writer_at_listening)
  have cl: "(validate (int ?n) (PDU_of_bytes (filled d zeroed)) MAX_DGRAM_SZ = NO_ERROR \<and>
      mtype (PDU_of_bytes (filled d zeroed)) = CLOSE) = closing d"
    by (simp add: classify_zeroed closing_def)
  have sz: "(0 \<le> ?sz) = (20 < length d)"
  proof (cases "20 < length d")
    case True
    then show ?thesis
      using payload_long [of ?n] by simp
  next
    case False
    then have "?n < 20"
      using assms(2) by auto
    then show ?thesis
      using payload_short [of ?n] False by simp
  qed
  have msg: "take (nat ?sz) (drop sizeof_PDU (filled d zeroed)) = payload_of d" if "20 < length d"
  proof -
    have "?sz = int (?n - 20)"
      using that by (intro payload_long) auto
    then have "nat ?sz = ?n - 20"
      by (simp only: nat_int)
    then show ?thesis
      using payload_received [OF that] by (simp only:)
  qed
  note entry = listen_frame_entry [OF w, where rcvSz = "int ?n" and tx = tx]
  show "\<exists>w'. heap (srv (listen uninit (Datagram d src) tx s)) = (heap s)(this \<mapsto> w') \<and>
           address w' = address w \<and> buffer (stream w') = pushed d w"
    using entry(1) c msg
    by (auto simp: listen_datagram [OF assms(1)] cl sz pushed_def)
  show "filter is_channel_event (trace (listen uninit (Datagram d src) tx s)) =
           channel_events this d"
    using entry(2) c msg
    by (auto simp: listen_datagram [OF assms(1)] cl sz channel_events_def)
qed


lemma pushed_new:
  "pushed d (FTPFileWriter_new a) = (if 20 < length d \<and> \<not> closing d then [payload_of d] else [])"
  by (simp add: pushed_def FTPFileWriter_new_def bufferedChannel_size_def has_room_def)

lemma address_new: "address (FTPFileWriter_new a) = a"
  by (simp add: FTPFileWriter_new_def)

lemma listen_shared:
  fixes uninit uninit' :: PDU and tx tx' :: sendto_result and d' :: bytes and src' :: sockaddr_in
  assumes "isAddrInit (inSockAddr (dpc s))" "length d = 20"
    and "sin_addr src' = sin_addr src" "length d' \<noteq> 20"
  defines "r \<equiv> listen uninit (Datagram d src) tx s"
  defines "r' \<equiv> listen uninit' (Datagram d' src') tx' (srv r)"
  shows "filter is_channel_event (trace r') = channel_events (next_new s) d'"
    and "\<exists>w'. heap (srv r') = (heap (srv r))(next_new s \<mapsto> w') \<and>
           address w' = inet_ntoa (sin_addr src) \<and>
           buffer (stream w') = (if 20 < length d' \<and> \<not> closing d' then [payload_of d'] else [])"
    and "seqNums (dpc (srv r')) (inet_ntoa (sin_addr src)) = Some (1 + counter_step d')"
    and "ftpWriters (srv r') (inet_ntoa (sin_addr src)) = Some (next_new s)"
proof -
  have init: "isAddrInit (inSockAddr (dpc (srv r)))"
    unfolding r_def using assms(1) by (simp add: listen_tables(3))
  have w: "writer_at (srv r) (inet_ntoa (sin_addr src')) =
      Some (next_new s, FTPFileWriter_new (inet_ntoa (sin_addr src)))"
    unfolding r_def assms(3) by (rule listen_entry_made(3) [OF assms(1,2)])
  note used = listen_entry_used [OF init assms(4) w, of uninit' tx', folded r'_def]
  show "filter is_channel_event (trace r') = channel_events (next_new s) d'"
    by (rule used(2))
  show "\<exists>w'. heap (srv r') = (heap (srv r))(next_new s \<mapsto> w') \<and>
           address w' = inet_ntoa (sin_addr src) \<and>
           buffer (stream w') = (if 20 < length d' \<and> \<not> closing d' then [payload_of d'] else [])"
    using used(1) by (simp add: pushed_new address_new)
  have "seq_at (seqNums (dpc (srv r))) (inet_ntoa (sin_addr src)) = 1"
    unfolding r_def using assms(2) by (simp add: listen_tables(1) [OF assms(1)] seq_at_def)
  then show "seqNums (dpc (srv r')) (inet_ntoa (sin_addr src)) = Some (1 + counter_step d')"
    unfolding r'_def using assms(3,4) by (simp add: listen_tables(1) [OF init])
  have "ftpWriters (srv r) (inet_ntoa (sin_addr src)) = Some (next_new s)"
    unfolding r_def using assms(2) by (simp add: listen_tables(2) [OF assms(1)])
  then show "ftpWriters (srv r') (inet_ntoa (sin_addr src)) = Some (next_new s)"
    unfolding r'_def using assms(4) by (simp add: listen_tables(2) [OF init])
qed

text \<open>
  C10. For every datagram that \<^verbatim>\<open>listen\<close> receives, the key of the sequence table
  and of the writer map is \<open>inet_ntoa\<close> of the sender's IPv4 address, and the port
  does not enter:

  \<^item> the same bytes from a sender with the same address, whatever its port and whoever
    sent the datagram before, leave the same sequence table, writer map, writers with
    their channels, pool, outcome and channel events;
  \<^item> the call changes the sequence table at that key only, and the writer map at that key
    or not at all: a datagram of 20 bytes sets the counter of the key to 1 and registers
    a new writer, made for that key, under it; any other datagram adds its step to the
    counter of the key;
  \<^item> a datagram of another length is handed to the writer registered under the key: that
    writer is the only object of the heap that changes, every channel event of the call is
    on it, and the payload of a datagram longer than a header that does not close is
    appended to its channel when that is open and has room; with no writer under the key
    the call through the null pointer is undefined;
  \<^item> hence senders on one host address share one writer entry, one channel and one
    counter: after a datagram of 20 bytes from one sender, a datagram of another length
    from any sender at the same address is handed to the writer made for the first, its
    payload is in that writer's channel, the counter continues from 1 and the entry stays.
\<close>

theorem keys_from_address_alone:
  assumes "isAddrInit (inSockAddr (dpc s))"
  shows
  "(let a = inet_ntoa (sin_addr src); r = listen uninit (Datagram d src) tx s in
     (sin_addr src' = sin_addr src \<longrightarrow>
        peer_view (listen uninit (Datagram d src') tx' (with_out out s)) = peer_view r) \<and>
     seqNums (dpc (srv r)) =
       (seqNums (dpc s))(a \<mapsto>
          (if length d = 20 then 1 else seq_at (seqNums (dpc s)) a + counter_step d)) \<and>
     ftpWriters (srv r) =
       (if length d = 20 then (ftpWriters s)(a \<mapsto> next_new s) else ftpWriters s) \<and>
     (length d = 20 \<longrightarrow>
        heap (srv r) = (heap s)(next_new s \<mapsto> FTPFileWriter_new a) \<and>
        filter is_channel_event (trace r) = [] \<and>
        (sin_addr src' = sin_addr src \<and> length d' \<noteq> 20 \<longrightarrow>
           (let r' = listen uninit' (Datagram d' src') tx' (srv r) in
            filter is_channel_event (trace r') = channel_events (next_new s) d' \<and>
            (\<exists>w'. heap (srv r') = (heap (srv r))(next_new s \<mapsto> w') \<and> address w' = a \<and>
                  buffer (stream w') =
                    (if 20 < length d' \<and> \<not> closing d' then [payload_of d'] else [])) \<and>
            seqNums (dpc (srv r')) a = Some (1 + counter_step d') \<and>
            ftpWriters (srv r') a = Some (next_new s)))) \<and>
     (length d \<noteq> 20 \<longrightarrow>
        (case writer_at s a of
           None \<Rightarrow>
             how r = Undefined_behaviour \<and> heap (srv r) = heap s \<and>
             filter is_channel_event (trace r) = []
         | Some (this, w) \<Rightarrow>
             (\<exists>w'. heap (srv r) = (heap s)(this \<mapsto> w') \<and> address w' = address w \<and>
                   buffer (stream w') = pushed d w) \<and>
             filter is_channel_event (trace r) = channel_events this d)))"
proof -
  let ?a = "inet_ntoa (sin_addr src)"
  let ?r = "listen uninit (Datagram d src) tx s"
  have port: "peer_view (listen uninit (Datagram d src') tx' (with_out out s)) = peer_view ?r"
    if "sin_addr src' = sin_addr src"
    using that assms by (rule listen_view)
  note tables = listen_tables(1,2) [OF assms, of uninit d src tx]
  note made = listen_entry_made(1,2) [OF assms, of d uninit src tx]
  note shared = listen_shared [OF assms, where d = d and src = src and src' = src' and d' = d'
      and uninit = uninit and tx = tx and uninit' = uninit' and tx' = tx']
  have used: "case writer_at s ?a of
           None \<Rightarrow>
             how ?r = Undefined_behaviour \<and> heap (srv ?r) = heap s \<and>
             filter is_channel_event (trace ?r) = []
         | Some (this, w) \<Rightarrow>
             (\<exists>w'. heap (srv ?r) = (heap s)(this \<mapsto> w') \<and> address w' = address w \<and>
                   buffer (stream w') = pushed d w) \<and>
             filter is_channel_event (trace ?r) = channel_events this d"
    if "length d \<noteq> 20"
  proof (cases "writer_at s ?a")
    case None
    then show ?thesis
      using listen_entry_missing [OF assms that None, of uninit tx] by simp
  next
    case (Some tw)
    obtain this w where tw: "tw = (this, w)" by (cases tw)
    show ?thesis
      using listen_entry_used [OF assms that Some [unfolded tw], of uninit tx]
      by (simp add: Some tw)
  qed
  show ?thesis
    unfolding Let_def
    using port tables made shared used by blast
qed

theorem keys_from_address_alone_witness:
  "isAddrInit (inSockAddr (dpc example_server)) \<and>
   sin_addr (peer\<lparr>sin_port := 40001\<rparr>) = sin_addr peer \<and>
   inet_ntoa (sin_addr peer) = ''127.0.0.1'' \<and>
   length connect_frame = 20 \<and> length snd_frame \<noteq> 20 \<and>
   writer_at example_server ''127.0.0.1'' = Some (1, FTPFileWriter_new ''127.0.0.1'') \<and>
   (let r = listen stack_junk (Datagram connect_frame peer) all_sent example_server;
        r' = listen stack_junk (Datagram snd_frame (peer\<lparr>sin_port := 40001\<rparr>)) all_sent (srv r)
    in seqNums (dpc (srv r)) ''127.0.0.1'' = Some 1 \<and>
       ftpWriters (srv r) ''127.0.0.1'' = Some 2 \<and>
       heap (srv r) 2 = Some (FTPFileWriter_new ''127.0.0.1'') \<and>
       filter is_channel_event (trace r') = [Channel_send 2 [1, 2, 3]] \<and>
       (\<exists>w'. heap (srv r') 2 = Some w' \<and> address w' = ''127.0.0.1'' \<and>
             buffer (stream w') = [[1, 2, 3]]) \<and>
       seqNums (dpc (srv r')) ''127.0.0.1'' = Some 4 \<and>
       ftpWriters (srv r') ''127.0.0.1'' = Some 2) \<and>
   (let r = listen stack_junk (Datagram snd_frame peer) all_sent example_server
    in peer_view (listen stack_junk (Datagram snd_frame (peer\<lparr>sin_port := 40001\<rparr>)) all_sent
         (with_out (outSockAddr example_conn) example_server)) = peer_view r \<and>
       filter is_channel_event (trace r) = [Channel_send 1 [1, 2, 3]] \<and>
       (\<exists>w'. heap (srv r) 1 = Some w' \<and> address w' = ''127.0.0.1'' \<and>
             buffer (stream w') = [[1, 2, 3]]) \<and>
       seqNums (dpc (srv r)) ''127.0.0.1'' = Some 3 \<and>
       ftpWriters (srv r) ''127.0.0.1'' = Some 1 \<and>
       ftpWriters (srv r) ''10.0.0.2'' = None)"
proof -
  have h: "isAddrInit (inSockAddr (dpc example_server))"
    "sin_addr (peer\<lparr>sin_port := 40001\<rparr>) = sin_addr peer"
    "inet_ntoa (sin_addr peer) = ''127.0.0.1''"
    "length connect_frame = 20" "length snd_frame \<noteq> 20" "20 < length snd_frame"
    "next_new example_server = 2"
    "ftpWriters example_server ''10.0.0.2'' = None"
    "seq_at (seqNums (dpc example_server)) ''127.0.0.1'' = 0"
    "payload_of snd_frame = [1, 2, 3]"
    "\<not> closing snd_frame"
    "counter_step snd_frame = 3"
    by code_simp+
  have w: "writer_at example_server ''127.0.0.1'' = Some (1, FTPFileWriter_new ''127.0.0.1'')"
    by (simp add: writer_at_def example_server_def)
  have p: "pushed snd_frame (FTPFileWriter_new ''127.0.0.1'') = [[1, 2, 3]]"
    using h by (simp add: pushed_new)
  have e: "channel_events n snd_frame = [Channel_send n [1, 2, 3]]" for n
    using h by (simp add: channel_events_def)
  let ?far = "peer\<lparr>sin_port := 40001\<rparr>"
  let ?r = "listen stack_junk (Datagram connect_frame peer) all_sent example_server"
  let ?r' = "listen stack_junk (Datagram snd_frame ?far) all_sent (srv ?r)"
  let ?q = "listen stack_junk (Datagram snd_frame peer) all_sent example_server"
  note t1 = keys_from_address_alone [OF h(1), where src = peer and d = connect_frame
      and src' = ?far and d' = snd_frame and uninit = stack_junk
      and uninit' = stack_junk and tx = all_sent and tx' = all_sent
      and out = "outSockAddr example_conn"]
  note t2 = keys_from_address_alone [OF h(1), where src = peer and d = snd_frame
      and src' = ?far and uninit = stack_junk
      and tx = all_sent and tx' = all_sent and out = "outSockAddr example_conn"]
  have made: "seqNums (dpc (srv ?r)) ''127.0.0.1'' = Some 1"
    "ftpWriters (srv ?r) ''127.0.0.1'' = Some 2"
    "heap (srv ?r) 2 = Some (FTPFileWriter_new ''127.0.0.1'')"
    using t1 h by (simp_all add: Let_def)
  have shared: "filter is_channel_event (trace ?r') = [Channel_send 2 [1, 2, 3]]"
    "seqNums (dpc (srv ?r')) ''127.0.0.1'' = Some 4"
    "ftpWriters (srv ?r') ''127.0.0.1'' = Some 2"
    using t1 h e by (simp_all add: Let_def)
  have shared_channel: "\<exists>w'. heap (srv ?r') 2 = Some w' \<and> address w' = ''127.0.0.1'' \<and>
             buffer (stream w') = [[1, 2, 3]]"
  proof -
    from t1 h obtain w' where "heap (srv ?r') = (heap (srv ?r))(2 \<mapsto> w')"
      "address w' = ''127.0.0.1''" "buffer (stream w') = [[1, 2, 3]]"
      by (auto simp: Let_def)
    then show ?thesis by simp
  qed
  have used: "peer_view (listen stack_junk (Datagram snd_frame ?far) all_sent
         (with_out (outSockAddr example_conn) example_server)) = peer_view ?q"
    "filter is_channel_event (trace ?q) = [Channel_send 1 [1, 2, 3]]"
    "seqNums (dpc (srv ?q)) ''127.0.0.1'' = Some 3"
    "ftpWriters (srv ?q) ''127.0.0.1'' = Some 1"
    "ftpWriters (srv ?q) ''10.0.0.2'' = None"
    using t2 h w e by (simp_all add: Let_def example_server_def)
  have used_channel: "\<exists>w'. heap (srv ?q) 1 = Some w' \<and> address w' = ''127.0.0.1'' \<and>
             buffer (stream w') = [[1, 2, 3]]"
  proof -
    from t2 h w p obtain w' where "heap (srv ?q) = (heap example_server)(1 \<mapsto> w')"
      "address w' = ''127.0.0.1''" "buffer (stream w') = [[1, 2, 3]]"
      by (auto simp: Let_def address_new)
    then show ?thesis by simp
  qed
  show ?thesis
    unfolding Let_def
    using h(1-5) w made shared shared_channel used used_channel by blast
qed

section \<open>Claims on the writer\<close>

subsection \<open>C6: a file that cannot be opened\<close>

text \<open>
  C6, as the claim states it, fails: when the file cannot be opened, \<^verbatim>\<open>serverLoop\<close>
  calls \<^verbatim>\<open>exit(-1)\<close>, which ends the process and with it the dispatcher and every
  other writer; the task does not merely return.
\<close>

theorem open_failure_exits_process:
  "w_exit (serverLoop 1 nothing_opens (writer_with [ftp_message ''out.txt'' NEW [65, 66]])
     Map.empty []) = Process_exit (- 1)"
  by code_simp

lemma receive_nonempty:
  "buffer ch = m # ms \<Longrightarrow>
   receive t ch = Returns m (ch\<lparr>buffer := ms, sender := notify_one (sender ch)\<rparr>)"
  by (simp add: receive_def receive_wait_def)

lemma isClosed_nonempty: "buffer ch = m # ms \<Longrightarrow> \<not> isClosed ch"
  by (simp add: isClosed_def)

text \<open>
  C6, amended. For every message that \<^verbatim>\<open>serverLoop\<close> consumes (the messages before it
  in the channel having at least the 108 bytes up to \<open>status\<close> and files that open):
  if the message has those 108 bytes and opening the file it names fails, the error
  \<^verbatim>\<open>ERROR:  Cannot open file\<close> with the name is written to \<^verbatim>\<open>std::cerr\<close> and
  \<^verbatim>\<open>exit(-1)\<close> ends the whole process; the messages behind it stay in the channel.
\<close>

theorem serverLoop_open_failure:
  assumes "buffer (stream w) = pre @ msg # rest"
    and "list_all (\<lambda>m. 108 \<le> length m \<and> can_open (fileName m)) pre"
    and "108 \<le> length msg" and "\<not> can_open (fileName msg)"
  shows "w_exit (serverLoop t can_open w files log) = Process_exit (- 1) \<and>
         w_stderr (serverLoop t can_open w files log) =
           log @ [''ERROR:  Cannot open file '' @ fileName msg] \<and>
         buffer (stream (w_writer (serverLoop t can_open w files log))) = rest"
  using assms
proof (induction pre arbitrary: w files)
  case Nil
  then have b: "buffer (stream w) = msg # rest" by simp
  show ?case
    using Nil.prems(3,4)
    by (subst (1 2 3) serverLoop.simps)
       (simp add: isClosed_nonempty [OF b] receive_nonempty [OF b])
next
  case (Cons m pre)
  then have b: "buffer (stream w) = m # (pre @ msg # rest)" by simp
  let ?w = "w\<lparr>stream := (stream w)\<lparr>buffer := pre @ msg # rest,
                                      sender := notify_one (sender (stream w))\<rparr>\<rparr>"
  let ?files = "write_file (status m) (fileName m) (drop sizeof_FTP_PDU m) files"
  have ok: "108 \<le> length m" "can_open (fileName m)"
    using Cons.prems(2) by simp_all
  have step: "serverLoop t can_open w files log = serverLoop t can_open ?w ?files log"
    using ok
    by (subst serverLoop.simps) (simp add: isClosed_nonempty [OF b] receive_nonempty [OF b])
  have "buffer (stream ?w) = pre @ msg # rest" by simp
  moreover have "list_all (\<lambda>m. 108 \<le> length m \<and> can_open (fileName m)) pre"
    using Cons.prems(2) by simp
  ultimately show ?case
    unfolding step using Cons.IH [of ?w ?files] Cons.prems(3,4) by blast
qed

theorem serverLoop_open_failure_witness:
  "buffer (stream (writer_with [out_message])) = [] @ out_message # [] \<and>
   list_all (\<lambda>m. 108 \<le> length m \<and> nothing_opens (fileName m)) [] \<and>
   108 \<le> length out_message \<and> \<not> nothing_opens (fileName out_message) \<and>
   w_exit (serverLoop 1 nothing_opens (writer_with [out_message]) Map.empty []) =
     Process_exit (- 1) \<and>
   w_stderr (serverLoop 1 nothing_opens (writer_with [out_message]) Map.empty []) =
     [''ERROR:  Cannot open file out.txt'']"
proof -
  have h: "buffer (stream (writer_with [out_message])) = [] @ out_message # []"
    "list_all (\<lambda>m. 108 \<le> length m \<and> nothing_opens (fileName m)) []"
    "108 \<le> length out_message" "\<not> nothing_opens (fileName out_message)"
    by code_simp+
  have n: "fileName out_message = ''out.txt''"
    by code_simp
  show ?thesis
    using h serverLoop_open_failure [OF h, of 1 Map.empty "[]"] n by simp
qed

subsection \<open>C2: a CLOSE datagram at the dispatcher\<close>

text \<open>
  C2 describes what the \<^verbatim>\<open>CLOSE\<close> case of \<^verbatim>\<open>listen\<close> sets out to do; the code does
  it for no datagram. The \<open>CLOSE\<close> frame that \<^verbatim>\<open>Connection::disconnect\<close> sends is a
  header without payload: \<^verbatim>\<open>listen\<close> takes it for a connect, answers \<open>CNTACK\<close>,
  leaves the peer's channel open, sets the peer's counter to 1 and puts a new writer in
  the peer's entry. A \<open>CLOSE\<close> frame with payload is answered with \<open>CLOSEACK\<close> and
  the channel is closed, but then the payload is sent on the closed channel, and the
  exception of that \<^verbatim>\<open>send\<close> leaves \<^verbatim>\<open>listen\<close> uncaught.
\<close>

theorem listen_close_frames:
  "map mtype (responses (trace (listen stack_junk (Datagram close_frame peer) all_sent
      example_server))) = [CNTACK] \<and>
   filter is_channel_event (trace (listen stack_junk (Datagram close_frame peer) all_sent
      example_server)) = [] \<and>
   map_option (open \<circ> stream)
     (heap (srv (listen stack_junk (Datagram close_frame peer) all_sent example_server)) 1) =
     Some True \<and>
   ftpWriters (srv (listen stack_junk (Datagram close_frame peer) all_sent example_server))
     ''127.0.0.1'' = Some 2 \<and>
   seqNums (dpc (srv (listen stack_junk (Datagram close_frame peer) all_sent example_server)))
     ''127.0.0.1'' = Some 1 \<and>
   map mtype (responses (trace (listen stack_junk (Datagram close_frame_with_payload peer)
      all_sent example_server))) = [CLOSEACK] \<and>
   filter is_channel_event (trace (listen stack_junk (Datagram close_frame_with_payload peer)
      all_sent example_server)) = [Channel_close 1, Channel_send 1 [1, 2, 3]] \<and>
   how (listen stack_junk (Datagram close_frame_with_payload peer) all_sent example_server) =
     Exception ''Receive on Closed Channel.''"
  by code_simp

end
